theory Spec2Isabelle
  imports Complex_Main
begin

section \<open>Double-precision values\<close>

text \<open>
  The C++ type \<open>double\<close>: a finite value, one of the two infinities, or NaN. The
  operations below follow the IEEE 754 rules for the special values (\<open>1/0 = +inf\<close>,
  \<open>0 * inf = NaN\<close>, \<open>inf - inf = NaN\<close>, every comparison with NaN is false) and are
  exact on finite values: rounding, overflow to infinity and the sign of zero (a zero
  divisor is read as \<open>+0\<close>) are not modelled.
\<close>

datatype dbl = Fin real | PInf | NInf | NaN

definition inf_sign :: "real \<Rightarrow> dbl" where
  "inf_sign s = (if s = 0 then NaN else if 0 < s then PInf else NInf)"

fun dadd :: "dbl \<Rightarrow> dbl \<Rightarrow> dbl" where
  "dadd NaN _ = NaN"
| "dadd _ NaN = NaN"
| "dadd PInf NInf = NaN"
| "dadd NInf PInf = NaN"
| "dadd PInf _ = PInf"
| "dadd _ PInf = PInf"
| "dadd NInf _ = NInf"
| "dadd _ NInf = NInf"
| "dadd (Fin a) (Fin b) = Fin (a + b)"

fun dneg :: "dbl \<Rightarrow> dbl" where
  "dneg (Fin a) = Fin (- a)"
| "dneg PInf = NInf"
| "dneg NInf = PInf"
| "dneg NaN = NaN"

fun dmul :: "dbl \<Rightarrow> dbl \<Rightarrow> dbl" where
  "dmul NaN _ = NaN"
| "dmul _ NaN = NaN"
| "dmul (Fin a) (Fin b) = Fin (a * b)"
| "dmul (Fin a) PInf = inf_sign a"
| "dmul (Fin a) NInf = inf_sign (- a)"
| "dmul PInf (Fin b) = inf_sign b"
| "dmul NInf (Fin b) = inf_sign (- b)"
| "dmul PInf PInf = PInf"
| "dmul PInf NInf = NInf"
| "dmul NInf PInf = NInf"
| "dmul NInf NInf = PInf"

fun ddiv :: "dbl \<Rightarrow> dbl \<Rightarrow> dbl" where
  "ddiv NaN _ = NaN"
| "ddiv _ NaN = NaN"
| "ddiv (Fin a) (Fin b) = (if b = 0 then inf_sign a else Fin (a / b))"
| "ddiv (Fin a) PInf = Fin 0"
| "ddiv (Fin a) NInf = Fin 0"
| "ddiv PInf (Fin b) = (if 0 \<le> b then PInf else NInf)"
| "ddiv NInf (Fin b) = (if 0 \<le> b then NInf else PInf)"
| "ddiv PInf PInf = NaN"
| "ddiv PInf NInf = NaN"
| "ddiv NInf PInf = NaN"
| "ddiv NInf NInf = NaN"

fun dless :: "dbl \<Rightarrow> dbl \<Rightarrow> bool" where
  "dless NaN _ = False"
| "dless _ NaN = False"
| "dless (Fin a) (Fin b) = (a < b)"
| "dless (Fin a) PInf = True"
| "dless NInf (Fin b) = True"
| "dless NInf PInf = True"
| "dless PInf _ = False"
| "dless _ NInf = False"

fun dle :: "dbl \<Rightarrow> dbl \<Rightarrow> bool" where
  "dle NaN _ = False"
| "dle _ NaN = False"
| "dle (Fin a) (Fin b) = (a \<le> b)"
| "dle _ PInf = True"
| "dle NInf _ = True"
| "dle PInf _ = False"
| "dle _ NInf = False"

instantiation dbl :: "{plus, minus, uminus, times, inverse, ord}"
begin

definition plus_dbl :: "dbl \<Rightarrow> dbl \<Rightarrow> dbl" where
  "plus_dbl a b = dadd a b"

definition uminus_dbl :: "dbl \<Rightarrow> dbl" where
  "uminus_dbl a = dneg a"

definition minus_dbl :: "dbl \<Rightarrow> dbl \<Rightarrow> dbl" where
  "minus_dbl a b = dadd a (dneg b)"

definition times_dbl :: "dbl \<Rightarrow> dbl \<Rightarrow> dbl" where
  "times_dbl a b = dmul a b"

definition divide_dbl :: "dbl \<Rightarrow> dbl \<Rightarrow> dbl" where
  "divide_dbl a b = ddiv a b"

definition inverse_dbl :: "dbl \<Rightarrow> dbl" where
  "inverse_dbl a = ddiv (Fin 1) a"

definition less_dbl :: "dbl \<Rightarrow> dbl \<Rightarrow> bool" where
  "less_dbl a b = dless a b"

definition less_eq_dbl :: "dbl \<Rightarrow> dbl \<Rightarrow> bool" where
  "less_eq_dbl a b = dle a b"

instance ..

end

text \<open>\<open>sqrt\<close>, \<open>exp\<close> and \<open>tanh\<close> of \<open>math.h\<close>.\<close>

fun dsqrt :: "dbl \<Rightarrow> dbl" where
  "dsqrt (Fin a) = (if a < 0 then NaN else Fin (sqrt a))"
| "dsqrt PInf = PInf"
| "dsqrt NInf = NaN"
| "dsqrt NaN = NaN"

fun dexp :: "dbl \<Rightarrow> dbl" where
  "dexp (Fin a) = Fin (exp a)"
| "dexp PInf = PInf"
| "dexp NInf = Fin 0"
| "dexp NaN = NaN"

fun dtanh :: "dbl \<Rightarrow> dbl" where
  "dtanh (Fin a) = Fin (tanh a)"
| "dtanh PInf = Fin 1"
| "dtanh NInf = Fin (- 1)"
| "dtanh NaN = NaN"

text \<open>\<open>isfinite\<close>: neither an infinity nor NaN.\<close>

fun is_finite :: "dbl \<Rightarrow> bool" where
  "is_finite (Fin a) = True"
| "is_finite PInf = False"
| "is_finite NInf = False"
| "is_finite NaN = False"

section \<open>The data the pair styles work on\<close>

text \<open>
  Arrays are functions from indices (C \<open>int\<close>, non-negative here, so \<open>nat\<close>) to values:
  \<open>x[i][0]\<close> is \<open>atom_x a i 0\<close>. A read outside the allocated range is undefined in C++;
  here it returns whatever the function holds there.
\<close>

record atom_t =
  nlocal :: nat
  nghost :: nat
  ntypes :: nat
  atom_x :: "nat \<Rightarrow> nat \<Rightarrow> dbl"
  atom_f :: "nat \<Rightarrow> nat \<Rightarrow> dbl"
  atom_q :: "nat \<Rightarrow> dbl"
  atom_type :: "nat \<Rightarrow> nat"

record force_t =
  newton_pair :: bool
  special_coul :: "nat \<Rightarrow> dbl"
  qqrd2e :: dbl

text \<open>
  The neighbour list: \<open>inum\<close> is the length of \<open>ilist\<close>, and \<open>numneigh[i]\<close> the length
  of \<open>firstneigh[i]\<close>.
\<close>

record neigh_list =
  ilist :: "nat list"
  firstneigh :: "nat \<Rightarrow> nat list"

text \<open>
  The members of the pair classes that the functions below read or write. \<open>setflag\<close>,
  \<open>cutsq\<close>, \<open>allocated\<close>, \<open>offset_flag\<close>, \<open>mix_flag\<close>, \<open>evflag\<close>, \<open>vflag_fdotr\<close>,
  \<open>eng_coul\<close> and \<open>virial\<close> are inherited; \<open>cut\<close> and \<open>cut_global\<close> belong to both styles.
\<close>

record pair_t =
  allocated :: bool
  setflag :: "nat \<Rightarrow> nat \<Rightarrow> int"
  cutsq :: "nat \<Rightarrow> nat \<Rightarrow> dbl"
  cut :: "nat \<Rightarrow> nat \<Rightarrow> dbl"
  cut_global :: dbl
  offset_flag :: int
  mix_flag :: int
  evflag :: bool
  vflag_fdotr :: bool
  eng_coul :: dbl
  virial :: "nat \<Rightarrow> dbl"

record pair_coul_debye = pair_t +
  kappa :: dbl

record pair_coul_diel = pair_t +
  sigmae :: "nat \<Rightarrow> nat \<Rightarrow> dbl"
  rme :: "nat \<Rightarrow> nat \<Rightarrow> dbl"
  offset :: "nat \<Rightarrow> nat \<Rightarrow> dbl"
  eps_s :: dbl
  a_eps :: dbl
  b_eps :: dbl

text \<open>
  What one worker thread owns during \<open>eval\<close>: its private force buffer and its energy
  and virial accumulators.
\<close>

record thr_t =
  thr_f :: "nat \<Rightarrow> nat \<Rightarrow> dbl"
  eng_coul_thr :: dbl
  virial_thr :: "nat \<Rightarrow> dbl"

text \<open>
  Modelled from the spec: \<open>ev_tally_thr\<close> of the base class \<open>PairOMP\<close>, which is not among
  the sources. Section 4.2, step 6: it adds the scaled energy, and the outer product of the
  separation vector and the force, to the calling thread's scalar and tensor accumulators.
  The six components are xx, yy, zz, xy, xz, yz.
\<close>

definition ev_tally_thr ::
  "nat \<Rightarrow> nat \<Rightarrow> nat \<Rightarrow> bool \<Rightarrow> dbl \<Rightarrow> dbl \<Rightarrow> dbl \<Rightarrow> dbl \<Rightarrow> dbl \<Rightarrow> dbl \<Rightarrow> thr_t \<Rightarrow> thr_t" where
  "ev_tally_thr i j nl newton evdwl ecoul fpair delx dely delz t =
     (let v = (\<lambda>k::nat.
            if k = 0 then delx * delx * fpair
            else if k = 1 then dely * dely * fpair
            else if k = 2 then delz * delz * fpair
            else if k = 3 then delx * dely * fpair
            else if k = 4 then delx * delz * fpair
            else dely * delz * fpair)
      in t\<lparr>eng_coul_thr := eng_coul_thr t + evdwl + ecoul,
           virial_thr := (\<lambda>k. if k < 6 then virial_thr t k + v k else virial_thr t k)\<rparr>)"

text \<open>
  Lines 129-136 of the Debye file and 148-155 of the dielectric file: the force goes to
  the owner \<open>i\<close>, and its negation to the partner \<open>j\<close> when \<open>NEWTON_PAIR || j < nlocal\<close>.
\<close>

definition add3 :: "(nat \<Rightarrow> nat \<Rightarrow> dbl) \<Rightarrow> nat \<Rightarrow> dbl \<Rightarrow> dbl \<Rightarrow> dbl \<Rightarrow> (nat \<Rightarrow> nat \<Rightarrow> dbl)" where
  "add3 fb i a b c =
     fb(i := (fb i)(0 := fb i 0 + a, 1 := fb i 1 + b, 2 := fb i 2 + c))"

definition sub3 :: "(nat \<Rightarrow> nat \<Rightarrow> dbl) \<Rightarrow> nat \<Rightarrow> dbl \<Rightarrow> dbl \<Rightarrow> dbl \<Rightarrow> (nat \<Rightarrow> nat \<Rightarrow> dbl)" where
  "sub3 fb j a b c =
     fb(j := (fb j)(0 := fb j 0 - a, 1 := fb j 1 - b, 2 := fb j 2 - c))"

definition apply_force ::
  "bool \<Rightarrow> nat \<Rightarrow> nat \<Rightarrow> nat \<Rightarrow> dbl \<Rightarrow> dbl \<Rightarrow> dbl \<Rightarrow> dbl \<Rightarrow> (nat \<Rightarrow> nat \<Rightarrow> dbl) \<Rightarrow> (nat \<Rightarrow> nat \<Rightarrow> dbl)" where
  "apply_force NEWTON_PAIR nl i j delx dely delz fpair fb =
     (let fb1 = add3 fb i (delx * fpair) (dely * fpair) (delz * fpair)
      in if NEWTON_PAIR \<or> j < nl
         then sub3 fb1 j (delx * fpair) (dely * fpair) (delz * fpair)
         else fb1)"

text \<open>
  Lines 109-113 of the Debye file (127-131 of the dielectric file): a neighbour index
  of \<open>nall\<close> or more carries the selector \<open>j/nall\<close> of the exclusion scale factor.
\<close>

definition decode_j :: "force_t \<Rightarrow> nat \<Rightarrow> nat \<Rightarrow> dbl \<times> nat" where
  "decode_j fr nall j =
     (if j < nall then (Fin 1, j) else (special_coul fr (j div nall), j mod nall))"

section \<open>\<open>PairCoulDebyeOMP\<close>\<close>

text \<open>
  Lines 122-127 and 138-139 of \<open>eval\<close>: the force factor and the energy of one pair.
  With \<open>EFLAG\<close> off \<open>ecoul\<close> keeps the \<open>0.0\<close> it was initialised with.
\<close>

definition debye_kernel :: "bool \<Rightarrow> dbl \<Rightarrow> dbl \<Rightarrow> dbl \<Rightarrow> dbl \<Rightarrow> dbl \<Rightarrow> dbl \<Rightarrow> dbl \<times> dbl" where
  "debye_kernel EFLAG qq kap qtmp qj factor_coul rsq =
     (let r2inv = Fin 1 / rsq;
          r = dsqrt rsq;
          rinv = Fin 1 / r;
          screening = dexp (- kap * r);
          forcecoul = qq * qtmp * qj * screening * (kap + rinv);
          fpair = factor_coul * forcecoul * r2inv;
          ecoul = (if EFLAG then factor_coul * qq * qtmp * qj * rinv * screening else Fin 0)
      in (fpair, ecoul))"

text \<open>The body of the inner loop of \<open>eval\<close> (lines 107-143) for the raw neighbour entry \<open>j0\<close>.\<close>

definition debye_pair ::
  "bool \<Rightarrow> bool \<Rightarrow> bool \<Rightarrow> pair_coul_debye \<Rightarrow> atom_t \<Rightarrow> force_t \<Rightarrow> nat \<Rightarrow> nat \<Rightarrow> thr_t \<Rightarrow> thr_t" where
  "debye_pair EVFLAG EFLAG NEWTON_PAIR p a fr i j0 t =
     (let nall = nlocal a + nghost a;
          (factor_coul, j) = decode_j fr nall j0;
          delx = atom_x a i 0 - atom_x a j 0;
          dely = atom_x a i 1 - atom_x a j 1;
          delz = atom_x a i 2 - atom_x a j 2;
          rsq = delx * delx + dely * dely + delz * delz;
          itype = atom_type a i;
          jtype = atom_type a j
      in if rsq < cutsq p itype jtype
         then
           (let (fpair, ecoul) =
                  debye_kernel EFLAG (qqrd2e fr) (kappa p) (atom_q a i) (atom_q a j) factor_coul rsq;
                t1 = t\<lparr>thr_f := apply_force NEWTON_PAIR (nlocal a) i j delx dely delz fpair (thr_f t)\<rparr>
            in if EVFLAG
               then ev_tally_thr i j (nlocal a) NEWTON_PAIR (Fin 0) ecoul fpair delx dely delz t1
               else t1)
         else t)"

text \<open>The two loops of \<open>eval\<close> (lines 96-145) over the slice \<open>iifrom..<iito\<close> of one thread.\<close>

definition debye_loop ::
  "bool \<Rightarrow> bool \<Rightarrow> bool \<Rightarrow> pair_coul_debye \<Rightarrow> atom_t \<Rightarrow> force_t \<Rightarrow> neigh_list \<Rightarrow> nat \<Rightarrow> nat \<Rightarrow> thr_t \<Rightarrow> thr_t" where
  "debye_loop EVFLAG EFLAG NEWTON_PAIR p a fr l iifrom iito t =
     fold (\<lambda>ii t'. let i = ilist l ! ii
                   in fold (debye_pair EVFLAG EFLAG NEWTON_PAIR p a fr i) (firstneigh l i) t')
          [iifrom..<iito] t"

text \<open>\<open>single\<close> (lines 207-223): the energy it returns, and the force factor \<open>fforce\<close>.\<close>

definition debye_single ::
  "pair_coul_debye \<Rightarrow> atom_t \<Rightarrow> force_t \<Rightarrow> nat \<Rightarrow> nat \<Rightarrow> nat \<Rightarrow> nat \<Rightarrow> dbl \<Rightarrow> dbl \<Rightarrow> dbl \<Rightarrow> dbl \<times> dbl" where
  "debye_single p a fr i j itype jtype rsq factor_coul factor_lj =
     (let r2inv = Fin 1 / rsq;
          r = dsqrt rsq;
          rinv = Fin 1 / r;
          screening = dexp (- kappa p * r);
          forcecoul = qqrd2e fr * atom_q a i * atom_q a j * screening * (kappa p + rinv);
          fforce = factor_coul * forcecoul * r2inv;
          phicoul = qqrd2e fr * atom_q a i * atom_q a j * rinv * screening
      in (factor_coul * phicoul, fforce))"

text \<open>
  \<open>error->all(...)\<close> prints its message and ends the run: each call is an error value.
\<close>

datatype error =
  Illegal_pair_style_command
  | Incorrect_args_for_pair_coefficients
  | Parameters_need_to_be_set_explicitly

text \<open>
  Lines 167-172 of the Debye file and 210-215 of the dielectric file, the same text in
  both: reset the cutoffs of the pairs that have been set. \<open>j\<close> starts at \<open>i+1\<close>.
\<close>

definition reset_cuts :: "nat \<Rightarrow> 'a pair_t_scheme \<Rightarrow> 'a pair_t_scheme" where
  "reset_cuts n p =
     fold (\<lambda>i p1.
             fold (\<lambda>j p2. if setflag p2 i j \<noteq> 0
                           then p2\<lparr>cut := (cut p2)(i := (cut p2 i)(j := cut_global p2))\<rparr>
                           else p2)
                  [i + 1..<n + 1] p1)
          [1..<n + 1] p"

text \<open>
  \<open>settings\<close> (lines 158-173). \<open>arg\<close> holds the values \<open>force->numeric\<close> parses from the
  \<open>narg\<close> argument strings.
\<close>

definition debye_settings :: "dbl list \<Rightarrow> atom_t \<Rightarrow> pair_coul_debye \<Rightarrow> error + pair_coul_debye" where
  "debye_settings arg a p =
     (if length arg \<noteq> 2 then Inl Illegal_pair_style_command
      else
        (let p1 = p\<lparr>kappa := arg ! 0\<rparr>;
             p2 = p1\<lparr>cut_global := arg ! 1\<rparr>
         in Inr (if allocated p2 then reset_cuts (ntypes a) p2 else p2)))"

text \<open>
  Modelled from the spec: \<open>init_one\<close> of \<open>PairCoulCutOMP\<close>, the base class of
  \<open>PairCoulDebyeOMP\<close>, which is not among the sources. Section 8: the Debye formula applies
  the global cutoff to an unset pair, without an error.
\<close>

definition debye_init_one :: "nat \<Rightarrow> nat \<Rightarrow> pair_coul_debye \<Rightarrow> error + pair_coul_debye \<times> dbl" where
  "debye_init_one i j p =
     (let p1 = (if setflag p i j = 0
                then p\<lparr>cut := (cut p)(i := (cut p i)(j := cut_global p))\<rparr>
                else p)
      in Inr (p1, cut p1 i j))"

subsection \<open>The restart file\<close>

text \<open>
  The file is the sequence of the items written, each a \<open>double\<close> or an \<open>int\<close>; \<open>fwrite\<close>
  appends one, \<open>fread\<close> takes the next one and stores it. An \<open>fread\<close> that finds no item
  of its type (the end of the file) stores nothing; the bytes of an item are not modelled.
  The reading functions are those of process 0; \<open>MPI_Bcast\<close> hands the other processes
  the same values.
\<close>

datatype item = D dbl | I int

type_synonym restart_file = "item list"

definition fwrite_double :: "dbl \<Rightarrow> restart_file \<Rightarrow> restart_file" where
  "fwrite_double v fp = fp @ [D v]"

definition fwrite_int :: "int \<Rightarrow> restart_file \<Rightarrow> restart_file" where
  "fwrite_int v fp = fp @ [I v]"

fun fread_double :: "dbl \<Rightarrow> restart_file \<Rightarrow> dbl \<times> restart_file" where
  "fread_double old (D v # fp) = (v, fp)"
| "fread_double old fp = (old, fp)"

fun fread_int :: "int \<Rightarrow> restart_file \<Rightarrow> int \<times> restart_file" where
  "fread_int old (I v # fp) = (v, fp)"
| "fread_int old fp = (old, fp)"

text \<open>\<open>write_restart_settings\<close> (lines 179-185) and \<open>read_restart_settings\<close> (191-203).\<close>

definition debye_write_restart_settings :: "pair_coul_debye \<Rightarrow> restart_file \<Rightarrow> restart_file" where
  "debye_write_restart_settings p fp =
     fwrite_int (mix_flag p)
       (fwrite_int (offset_flag p)
         (fwrite_double (kappa p)
           (fwrite_double (cut_global p) fp)))"

definition debye_read_restart_settings :: "restart_file \<Rightarrow> pair_coul_debye \<Rightarrow> pair_coul_debye \<times> restart_file" where
  "debye_read_restart_settings fp p =
     (let (c, fp1) = fread_double (cut_global p) fp;
          (k, fp2) = fread_double (kappa p) fp1;
          (off, fp3) = fread_int (offset_flag p) fp2;
          (m, fp4) = fread_int (mix_flag p) fp3
      in (p\<lparr>cut_global := c, kappa := k, offset_flag := off, mix_flag := m\<rparr>, fp4))"

subsection \<open>Threads, \<open>eval\<close> and \<open>compute\<close>\<close>

text \<open>
  Modelled from the spec: \<open>loop_setup_thr\<close>, \<open>force_reduce_thr\<close> and \<open>ev_reduce_thr\<close> of
  \<open>PairOMP\<close>, which is not among the sources. Section 5: each thread gets a contiguous
  range of the owner list, the count split evenly with the remainder going to the first
  threads. Section 3: its force buffer and accumulators are reset at the beginning of the
  call. Section 4.4: the reduction adds every thread's buffer, element by element for
  every owned and ghost slot, into the shared force array, and the per-thread energy and
  virial into the totals.
\<close>

definition loop_setup_thr :: "nat \<Rightarrow> nat \<Rightarrow> nat \<Rightarrow> nat \<times> nat" where
  "loop_setup_thr tid inum nthreads =
     (let base = inum div nthreads;
          rest = inum mod nthreads;
          iifrom = tid * base + min tid rest;
          iito = iifrom + base + (if tid < rest then 1 else 0)
      in (iifrom, iito))"

definition thr_zero :: thr_t where
  "thr_zero = \<lparr>thr_f = (\<lambda>k c. Fin 0), eng_coul_thr = Fin 0, virial_thr = (\<lambda>k. Fin 0)\<rparr>"

definition force_reduce_thr :: "nat \<Rightarrow> thr_t list \<Rightarrow> (nat \<Rightarrow> nat \<Rightarrow> dbl) \<Rightarrow> (nat \<Rightarrow> nat \<Rightarrow> dbl)" where
  "force_reduce_thr nall ts fg =
     (\<lambda>k c. if k < nall \<and> c < 3 then fold (\<lambda>t s. s + thr_f t k c) ts (fg k c) else fg k c)"

definition ev_reduce_thr :: "thr_t list \<Rightarrow> 'a pair_t_scheme \<Rightarrow> 'a pair_t_scheme" where
  "ev_reduce_thr ts p =
     p\<lparr>eng_coul := fold (\<lambda>t s. s + eng_coul_thr t) ts (eng_coul p),
       virial := (\<lambda>k. if k < 6 then fold (\<lambda>t s. s + virial_thr t k) ts (virial p k)
                       else virial p k)\<rparr>"

text \<open>
  Modelled from the spec: \<open>ev_setup\<close> and \<open>ev_setup_thr\<close>, not among the sources. They
  derive \<open>evflag\<close> and \<open>vflag_fdotr\<close> from the caller's \<open>eflag\<close> and \<open>vflag\<close> and reset the
  style's own energy and virial slots (section 3). How the two flags are derived is not
  in the spec: \<open>ev\<close> is that function.
\<close>

definition ev_setup :: "(int \<Rightarrow> int \<Rightarrow> bool \<times> bool) \<Rightarrow> int \<Rightarrow> int \<Rightarrow> 'a pair_t_scheme \<Rightarrow> 'a pair_t_scheme" where
  "ev_setup ev eflag vflag p =
     p\<lparr>evflag := fst (ev eflag vflag), vflag_fdotr := snd (ev eflag vflag),
       eng_coul := Fin 0, virial := (\<lambda>k. Fin 0)\<rparr>"

text \<open>
  The whole simulation as far as \<open>compute\<close> reads it: \<open>atom\<close>, \<open>force\<close>, \<open>list\<close> and
  \<open>comm->nthreads\<close>.
\<close>

record lammps =
  lmp_atom :: atom_t
  lmp_force :: force_t
  lmp_list :: neigh_list
  comm_nthreads :: nat

text \<open>
  \<open>eval\<close> (lines 59-152): every thread runs the loops on its slice and its own buffer,
  then the buffers are reduced. \<open>virial_compute\<close> is not among the sources: \<open>vc\<close> is the
  virial it computes from the atoms.
\<close>

definition debye_eval ::
  "bool \<Rightarrow> bool \<Rightarrow> bool \<Rightarrow> (atom_t \<Rightarrow> nat \<Rightarrow> dbl) \<Rightarrow> pair_coul_debye \<Rightarrow> lammps \<Rightarrow> pair_coul_debye \<times> lammps" where
  "debye_eval EVFLAG EFLAG NEWTON_PAIR vc p s =
     (let a = lmp_atom s;
          nall = nlocal a + nghost a;
          nthreads = comm_nthreads s;
          inum = length (ilist (lmp_list s));
          ts = map (\<lambda>tid. let (iifrom, iito) = loop_setup_thr tid inum nthreads
                          in debye_loop EVFLAG EFLAG NEWTON_PAIR p a (lmp_force s) (lmp_list s)
                               iifrom iito thr_zero)
                   [0..<nthreads];
          a1 = a\<lparr>atom_f := force_reduce_thr nall ts (atom_f a)\<rparr>;
          p1 = ev_reduce_thr ts p;
          p2 = (if vflag_fdotr p1 then p1\<lparr>virial := vc a1\<rparr> else p1)
      in (p2, s\<lparr>lmp_atom := a1\<rparr>))"

text \<open>\<open>compute\<close> (lines 38-57).\<close>

definition debye_compute ::
  "(int \<Rightarrow> int \<Rightarrow> bool \<times> bool) \<Rightarrow> (atom_t \<Rightarrow> nat \<Rightarrow> dbl) \<Rightarrow> int \<Rightarrow> int \<Rightarrow> pair_coul_debye \<Rightarrow> lammps
     \<Rightarrow> pair_coul_debye \<times> lammps" where
  "debye_compute ev vc eflag vflag p s =
     (let p1 = (if eflag \<noteq> 0 \<or> vflag \<noteq> 0 then ev_setup ev eflag vflag p
                else p\<lparr>evflag := False, vflag_fdotr := False\<rparr>)
      in if evflag p1 then
           (if eflag \<noteq> 0 then
              (if newton_pair (lmp_force s) then debye_eval True True True vc p1 s
               else debye_eval True True False vc p1 s)
            else
              (if newton_pair (lmp_force s) then debye_eval True False True vc p1 s
               else debye_eval True False False vc p1 s))
         else
           (if newton_pair (lmp_force s) then debye_eval False False True vc p1 s
            else debye_eval False False False vc p1 s))"

section \<open>\<open>PairCoulDielOMP\<close>\<close>

text \<open>
  Lines 139-146 and 157-160 of \<open>eval\<close>: the force factor and the energy of one pair, for
  the type indices \<open>itype\<close> and \<open>jtype\<close> the loop holds.
\<close>

definition diel_kernel ::
  "bool \<Rightarrow> pair_coul_diel \<Rightarrow> dbl \<Rightarrow> dbl \<Rightarrow> dbl \<Rightarrow> nat \<Rightarrow> nat \<Rightarrow> dbl \<Rightarrow> dbl \<Rightarrow> dbl \<times> dbl" where
  "diel_kernel EFLAG p qq qtmp qj itype jtype factor_coul rsq =
     (let r = dsqrt rsq;
          rarg = (r - rme p itype jtype) / sigmae p itype jtype;
          th = dtanh rarg;
          epsr = a_eps p + b_eps p * th;
          depsdr = b_eps p * (Fin 1 - th * th) / sigmae p itype jtype;
          forcecoul = qq * qtmp * qj * ((eps_s p * (epsr + r * depsdr) / epsr / epsr) - Fin 1) / rsq;
          fpair = factor_coul * forcecoul / r;
          ecoul = (if EFLAG
                   then ((qq * qtmp * qj * ((eps_s p / epsr) - Fin 1) / r) - offset p itype jtype)
                        * factor_coul
                   else Fin 0)
      in (fpair, ecoul))"

text \<open>
  The body of the inner loop of \<open>eval\<close> (lines 125-166). The local \<open>jtype\<close> is declared
  at line 85 and read at lines 138-158, but this function never assigns it (the Debye
  \<open>eval\<close> has \<open>jtype = type[j]\<close> at its line 119): what is read is the indeterminate
  value the variable holds. That value is the parameter \<open>jtype\<close> here.
\<close>

definition diel_pair ::
  "bool \<Rightarrow> bool \<Rightarrow> bool \<Rightarrow> nat \<Rightarrow> pair_coul_diel \<Rightarrow> atom_t \<Rightarrow> force_t \<Rightarrow> nat \<Rightarrow> nat \<Rightarrow> thr_t \<Rightarrow> thr_t" where
  "diel_pair EVFLAG EFLAG NEWTON_PAIR jtype p a fr i j0 t =
     (let nall = nlocal a + nghost a;
          (factor_coul, j) = decode_j fr nall j0;
          delx = atom_x a i 0 - atom_x a j 0;
          dely = atom_x a i 1 - atom_x a j 1;
          delz = atom_x a i 2 - atom_x a j 2;
          rsq = delx * delx + dely * dely + delz * delz;
          itype = atom_type a i
      in if rsq < cutsq p itype jtype
         then
           (let (fpair, ecoul) =
                  diel_kernel EFLAG p (qqrd2e fr) (atom_q a i) (atom_q a j) itype jtype factor_coul rsq;
                t1 = t\<lparr>thr_f := apply_force NEWTON_PAIR (nlocal a) i j delx dely delz fpair (thr_f t)\<rparr>
            in if EVFLAG
               then ev_tally_thr i j (nlocal a) NEWTON_PAIR (Fin 0) ecoul fpair delx dely delz t1
               else t1)
         else t)"

definition diel_loop ::
  "bool \<Rightarrow> bool \<Rightarrow> bool \<Rightarrow> nat \<Rightarrow> pair_coul_diel \<Rightarrow> atom_t \<Rightarrow> force_t \<Rightarrow> neigh_list \<Rightarrow> nat \<Rightarrow> nat \<Rightarrow> thr_t
     \<Rightarrow> thr_t" where
  "diel_loop EVFLAG EFLAG NEWTON_PAIR jtype p a fr l iifrom iito t =
     fold (\<lambda>ii t'. let i = ilist l ! ii
                   in fold (diel_pair EVFLAG EFLAG NEWTON_PAIR jtype p a fr i) (firstneigh l i) t')
          [iifrom..<iito] t"

text \<open>
  \<open>eval\<close> (lines 76-175). \<open>jtype\<close> is local to the parallel block, one variable per
  thread and per instance of the template: \<open>jtype0 tid\<close> is the value it holds in thread
  \<open>tid\<close> of the instance that runs.
\<close>

definition diel_eval ::
  "bool \<Rightarrow> bool \<Rightarrow> bool \<Rightarrow> (nat \<Rightarrow> nat) \<Rightarrow> (atom_t \<Rightarrow> nat \<Rightarrow> dbl) \<Rightarrow> pair_coul_diel \<Rightarrow> lammps
     \<Rightarrow> pair_coul_diel \<times> lammps" where
  "diel_eval EVFLAG EFLAG NEWTON_PAIR jtype0 vc p s =
     (let a = lmp_atom s;
          nall = nlocal a + nghost a;
          nthreads = comm_nthreads s;
          inum = length (ilist (lmp_list s));
          ts = map (\<lambda>tid. let (iifrom, iito) = loop_setup_thr tid inum nthreads
                          in diel_loop EVFLAG EFLAG NEWTON_PAIR (jtype0 tid) p a (lmp_force s)
                               (lmp_list s) iifrom iito thr_zero)
                   [0..<nthreads];
          a1 = a\<lparr>atom_f := force_reduce_thr nall ts (atom_f a)\<rparr>;
          p1 = ev_reduce_thr ts p;
          p2 = (if vflag_fdotr p1 then p1\<lparr>virial := vc a1\<rparr> else p1)
      in (p2, s\<lparr>lmp_atom := a1\<rparr>))"

text \<open>
  \<open>compute\<close> (lines 55-74). One call runs one instance of \<open>eval\<close>, and \<open>jtype0\<close> holds
  the values of the unassigned \<open>jtype\<close> in that instance: two calls that select different
  instances need not find the same values.
\<close>

definition diel_compute ::
  "(int \<Rightarrow> int \<Rightarrow> bool \<times> bool) \<Rightarrow> (nat \<Rightarrow> nat) \<Rightarrow> (atom_t \<Rightarrow> nat \<Rightarrow> dbl) \<Rightarrow> int \<Rightarrow> int \<Rightarrow> pair_coul_diel
     \<Rightarrow> lammps \<Rightarrow> pair_coul_diel \<times> lammps" where
  "diel_compute ev jtype0 vc eflag vflag p s =
     (let p1 = (if eflag \<noteq> 0 \<or> vflag \<noteq> 0 then ev_setup ev eflag vflag p
                else p\<lparr>evflag := False, vflag_fdotr := False\<rparr>)
      in if evflag p1 then
           (if eflag \<noteq> 0 then
              (if newton_pair (lmp_force s) then diel_eval True True True jtype0 vc p1 s
               else diel_eval True True False jtype0 vc p1 s)
            else
              (if newton_pair (lmp_force s) then diel_eval True False True jtype0 vc p1 s
               else diel_eval True False False jtype0 vc p1 s))
         else
           (if newton_pair (lmp_force s) then diel_eval False False True jtype0 vc p1 s
            else diel_eval False False False jtype0 vc p1 s))"

text \<open>
  \<open>allocate\<close> (lines 181-196). The arrays are new memory: \<open>setflag\<close> is cleared for
  \<open>1 \<le> i \<le> j \<le> n\<close>, and nothing else is written. What new memory holds is indeterminate;
  the model keeps the entries the fields had.
\<close>

definition diel_allocate :: "atom_t \<Rightarrow> pair_coul_diel \<Rightarrow> pair_coul_diel" where
  "diel_allocate a p =
     p\<lparr>allocated := True,
       setflag := (\<lambda>i j. if 1 \<le> i \<and> i \<le> j \<and> j \<le> ntypes a then 0 else setflag p i j)\<rparr>"

text \<open>\<open>settings\<close> (lines 202-216), with the parsed values of the arguments.\<close>

definition diel_settings :: "dbl list \<Rightarrow> atom_t \<Rightarrow> pair_coul_diel \<Rightarrow> error + pair_coul_diel" where
  "diel_settings arg a p =
     (if length arg \<noteq> 1 then Inl Illegal_pair_style_command
      else
        (let p1 = p\<lparr>cut_global := arg ! 0\<rparr>
         in Inr (if allocated p1 then reset_cuts (ntypes a) p1 else p1)))"

text \<open>
  \<open>coeff\<close> (lines 222-252). \<open>force->bounds\<close> is not among the sources: \<open>(ilo, ihi)\<close> and
  \<open>(jlo, jhi)\<close> are the ranges it returns for the first two arguments, and \<open>arg\<close> holds the
  parsed values of the arguments after them, so that \<open>narg\<close> is \<open>length arg + 2\<close>. The loops
  of lines 238-247 come first: they return the tables and \<open>count\<close>.
\<close>

definition diel_coeff_loop ::
  "nat \<Rightarrow> nat \<Rightarrow> nat \<Rightarrow> nat \<Rightarrow> dbl \<Rightarrow> dbl \<Rightarrow> dbl \<Rightarrow> pair_coul_diel \<Rightarrow> pair_coul_diel \<times> nat" where
  "diel_coeff_loop ilo ihi jlo jhi sigmae_one rme_one cut_one p =
     fold (\<lambda>i pc.
             fold (\<lambda>j (q, c).
                     (q\<lparr>cut := (cut q)(i := (cut q i)(j := cut_one)),
                        setflag := (setflag q)(i := (setflag q i)(j := 1)),
                        sigmae := (sigmae q)(i := (sigmae q i)(j := sigmae_one)),
                        rme := (rme q)(i := (rme q i)(j := rme_one))\<rparr>,
                      c + (1::nat)))
                  [max jlo i..<jhi + 1] pc)
          [ilo..<ihi + 1] (p, 0)"

definition diel_coeff ::
  "nat \<times> nat \<Rightarrow> nat \<times> nat \<Rightarrow> dbl list \<Rightarrow> atom_t \<Rightarrow> pair_coul_diel \<Rightarrow> error + pair_coul_diel" where
  "diel_coeff ib jb arg a p =
     (let narg = length arg + 2
      in if narg < 5 \<or> 6 < narg then Inl Incorrect_args_for_pair_coefficients
         else
           (let p0 = (if \<not> allocated p then diel_allocate a p else p);
                (ilo, ihi) = ib;
                (jlo, jhi) = jb;
                p1 = p0\<lparr>eps_s := arg ! 0\<rparr>;
                rme_one = arg ! 1;
                sigmae_one = arg ! 2;
                cut_one = (if narg = 6 then arg ! 3 else cut_global p1);
                (p2, count) = diel_coeff_loop ilo ihi jlo jhi sigmae_one rme_one cut_one p1;
                p3 = p2\<lparr>a_eps := Fin (1 / 2) * (Fin (26 / 5) + eps_s p2)\<rparr>;
                p4 = p3\<lparr>b_eps := Fin (1 / 2) * (eps_s p3 - Fin (26 / 5))\<rparr>
            in if count = 0 then Inl Incorrect_args_for_pair_coefficients else Inr p4))"

text \<open>\<open>init_one\<close> (lines 271-293): the updated tables and the cutoff returned.\<close>

definition diel_init_one ::
  "atom_t \<Rightarrow> force_t \<Rightarrow> nat \<Rightarrow> nat \<Rightarrow> pair_coul_diel \<Rightarrow> error + pair_coul_diel \<times> dbl" where
  "diel_init_one a fr i j p =
     (if setflag p i j = 0 then Inl Parameters_need_to_be_set_explicitly
      else
        (let q = atom_q a;
             off = (if offset_flag p \<noteq> 0
                    then (let rarg = (cut p i j - rme p i j) / sigmae p i j;
                              epsr = a_eps p + b_eps p * dtanh rarg
                          in qqrd2e fr * q i * q j * ((eps_s p / epsr) - Fin 1) / cut p i j)
                    else Fin 0);
             p1 = p\<lparr>offset := (offset p)(i := (offset p i)(j := off))\<rparr>;
             p2 = p1\<lparr>sigmae := (sigmae p1)(j := (sigmae p1 j)(i := sigmae p1 i j))\<rparr>;
             p3 = p2\<lparr>rme := (rme p2)(j := (rme p2 j)(i := rme p2 i j))\<rparr>;
             p4 = p3\<lparr>offset := (offset p3)(j := (offset p3 j)(i := offset p3 i j))\<rparr>;
             p5 = p4\<lparr>cut := (cut p4)(j := (cut p4 j)(i := cut p4 i j))\<rparr>
         in Inr (p5, cut p5 i j)))"

text \<open>
  Initialisation calls \<open>init_one\<close> for type pairs one after the other and stops at the
  first error. The caller (\<open>Pair::init\<close>) is not among the sources: the sequence of pairs
  it goes through is the argument.
\<close>

fun diel_init_pairs ::
  "atom_t \<Rightarrow> force_t \<Rightarrow> (nat \<times> nat) list \<Rightarrow> pair_coul_diel \<Rightarrow> error + pair_coul_diel" where
  "diel_init_pairs a fr [] p = Inr p"
| "diel_init_pairs a fr ((i, j) # ps) p =
     (case diel_init_one a fr i j p of
        Inl e \<Rightarrow> Inl e
      | Inr (p1, c) \<Rightarrow> diel_init_pairs a fr ps p1)"

text \<open>\<open>write_restart_settings\<close> (lines 345-350) and \<open>read_restart_settings\<close> (356-366).\<close>

definition diel_write_restart_settings :: "pair_coul_diel \<Rightarrow> restart_file \<Rightarrow> restart_file" where
  "diel_write_restart_settings p fp =
     fwrite_int (mix_flag p)
       (fwrite_int (offset_flag p)
         (fwrite_double (cut_global p) fp))"

definition diel_read_restart_settings :: "restart_file \<Rightarrow> pair_coul_diel \<Rightarrow> pair_coul_diel \<times> restart_file" where
  "diel_read_restart_settings fp p =
     (let (c, fp1) = fread_double (cut_global p) fp;
          (off, fp2) = fread_int (offset_flag p) fp1;
          (m, fp3) = fread_int (mix_flag p) fp2
      in (p\<lparr>cut_global := c, offset_flag := off, mix_flag := m\<rparr>, fp3))"

text \<open>\<open>write_restart\<close> (lines 299-313).\<close>

definition diel_write_restart :: "atom_t \<Rightarrow> pair_coul_diel \<Rightarrow> restart_file \<Rightarrow> restart_file" where
  "diel_write_restart a p fp =
     fold (\<lambda>i fp1.
             fold (\<lambda>j fp2.
                     (let fp3 = fwrite_int (setflag p i j) fp2
                      in if setflag p i j \<noteq> 0
                         then fwrite_double (cut p i j)
                                (fwrite_double (sigmae p i j)
                                  (fwrite_double (rme p i j) fp3))
                         else fp3))
                  [i..<ntypes a + 1] fp1)
          [1..<ntypes a + 1] (diel_write_restart_settings p fp)"

text \<open>
  \<open>read_restart\<close> (lines 319-339). The loop tests \<open>setflag[i][j]\<close> as \<open>allocate\<close> left
  it: no \<open>fread\<close> of the flag stands before the test.
\<close>

definition diel_read_restart :: "atom_t \<Rightarrow> restart_file \<Rightarrow> pair_coul_diel \<Rightarrow> pair_coul_diel \<times> restart_file" where
  "diel_read_restart a fp p =
     (let (p1, fp1) = diel_read_restart_settings fp p;
          p2 = diel_allocate a p1
      in fold (\<lambda>i pf.
                 fold (\<lambda>j (q, fq).
                         if setflag q i j \<noteq> 0
                         then (let (r, fq1) = fread_double (rme q i j) fq;
                                   (sg, fq2) = fread_double (sigmae q i j) fq1;
                                   (c, fq3) = fread_double (cut q i j) fq2
                               in (q\<lparr>cut := (cut q)(i := (cut q i)(j := c)),
                                     sigmae := (sigmae q)(i := (sigmae q i)(j := sg)),
                                     rme := (rme q)(i := (rme q i)(j := r))\<rparr>, fq3))
                         else (q, fq))
                      [i..<ntypes a + 1] pf)
              [1..<ntypes a + 1] (p2, fp1))"

text \<open>\<open>single\<close> (lines 370-390): the energy it returns, and the force factor \<open>fforce\<close>.\<close>

definition diel_single ::
  "pair_coul_diel \<Rightarrow> atom_t \<Rightarrow> force_t \<Rightarrow> nat \<Rightarrow> nat \<Rightarrow> nat \<Rightarrow> nat \<Rightarrow> dbl \<Rightarrow> dbl \<Rightarrow> dbl \<Rightarrow> dbl \<times> dbl" where
  "diel_single p a fr i j itype jtype rsq factor_coul factor_lj =
     (let q = atom_q a;
          r = dsqrt rsq;
          rarg = (r - rme p itype jtype) / sigmae p itype jtype;
          th = dtanh rarg;
          epsr = a_eps p + b_eps p * th;
          depsdr = b_eps p * (Fin 1 - th * th) / sigmae p itype jtype;
          forcedielec = qqrd2e fr * q i * q j * ((eps_s p * (epsr + r * depsdr) / epsr / epsr) - Fin 1) / rsq;
          fforce = factor_coul * forcedielec / r;
          phidielec = (qqrd2e fr * q i * q j * ((eps_s p / epsr) - Fin 1) / r) - offset p itype jtype
      in (factor_coul * phidielec, fforce))"

text \<open>
  Modelled from the spec: the caller that initialises the type pairs and then evaluates
  the forces is not among the sources. Section 7: a configuration error halts the run,
  so \<open>compute\<close> is reached only when every \<open>init_one\<close> has returned.
\<close>

definition diel_init_then_compute ::
  "(int \<Rightarrow> int \<Rightarrow> bool \<times> bool) \<Rightarrow> (nat \<Rightarrow> nat) \<Rightarrow> (atom_t \<Rightarrow> nat \<Rightarrow> dbl) \<Rightarrow> int \<Rightarrow> int
     \<Rightarrow> (nat \<times> nat) list \<Rightarrow> pair_coul_diel \<Rightarrow> lammps \<Rightarrow> error + pair_coul_diel \<times> lammps" where
  "diel_init_then_compute ev jtype0 vc eflag vflag ps p s =
     (case diel_init_pairs (lmp_atom s) (lmp_force s) ps p of
        Inl e \<Rightarrow> Inl e
      | Inr p1 \<Rightarrow> Inr (diel_compute ev jtype0 vc eflag vflag p1 s))"

text \<open>The four tables agree at \<open>(i, j)\<close> and \<open>(j, i)\<close>.\<close>

definition sym_at :: "pair_coul_diel \<Rightarrow> nat \<Rightarrow> nat \<Rightarrow> bool" where
  "sym_at p i j \<longleftrightarrow>
     sigmae p i j = sigmae p j i \<and> rme p i j = rme p j i \<and> cut p i j = cut p j i
     \<and> offset p i j = offset p j i"

section \<open>The closed forms\<close>

text \<open>
  The pair potentials and the Debye force of section 4.2 (step 3) of the spec as functions
  of real arguments, with the constant of proportionality \<open>qqrd2e\<close>: the Debye energy
  \<open>q_i q_j e^(-kappa r) / r\<close> and force \<open>q_i q_j e^(-kappa r) (kappa + 1/r) / r^2\<close>, and
  the energy of two charges in a dielectric whose permittivity follows a hyperbolic
  tangent centred at \<open>rm\<close> with width \<open>sg\<close>.
\<close>

definition debye_closed_energy :: "real \<Rightarrow> real \<Rightarrow> real \<Rightarrow> real \<Rightarrow> real \<Rightarrow> real" where
  "debye_closed_energy qq qi qj kap r = qq * qi * qj * exp (- kap * r) / r"

definition debye_closed_force :: "real \<Rightarrow> real \<Rightarrow> real \<Rightarrow> real \<Rightarrow> real \<Rightarrow> real" where
  "debye_closed_force qq qi qj kap r = qq * qi * qj * exp (- kap * r) * (kap + 1 / r) / r\<^sup>2"

definition diel_closed_energy ::
  "real \<Rightarrow> real \<Rightarrow> real \<Rightarrow> real \<Rightarrow> real \<Rightarrow> real \<Rightarrow> real \<Rightarrow> real \<Rightarrow> real \<Rightarrow> real" where
  "diel_closed_energy qq qi qj es ae be rm sg r =
     qq * qi * qj * (es / (ae + be * tanh ((r - rm) / sg)) - 1) / r"

section \<open>Concrete configurations\<close>

text \<open>
  The Debye scenario of section 8 of the spec: two particles of charge \<open>+1\<close> and \<open>-1\<close> at
  separation \<open>1\<close> along the first axis, \<open>kappa = 0.5\<close>, \<open>qqrd2e = 1\<close>, cutoff \<open>5\<close>.
\<close>

definition atom_two :: atom_t where
  "atom_two =
     \<lparr>nlocal = 2, nghost = 0, ntypes = 1,
      atom_x = (\<lambda>i k. if i = 1 \<and> k = 0 then Fin 1 else Fin 0),
      atom_f = (\<lambda>i k. Fin 0),
      atom_q = (\<lambda>i. if i = 0 then Fin 1 else Fin (- 1)),
      atom_type = (\<lambda>i. 1)\<rparr>"

definition force_one :: force_t where
  "force_one =
     \<lparr>newton_pair = True,
      special_coul = (\<lambda>k. if k = 0 then Fin 1 else Fin 0),
      qqrd2e = Fin 1\<rparr>"

definition debye_half :: pair_coul_debye where
  "debye_half =
     \<lparr>allocated = True, setflag = (\<lambda>i j. 1), cutsq = (\<lambda>i j. Fin 25), cut = (\<lambda>i j. Fin 5),
      cut_global = Fin 5, offset_flag = 1, mix_flag = 0, evflag = True, vflag_fdotr = False,
      eng_coul = Fin 0, virial = (\<lambda>k. Fin 0), kappa = Fin (1 / 2)\<rparr>"

definition list_two :: neigh_list where
  "list_two = \<lparr>ilist = [0], firstneigh = (\<lambda>i. if i = 0 then [1] else [])\<rparr>"

definition lammps_two :: lammps where
  "lammps_two =
     \<lparr>lmp_atom = atom_two, lmp_force = force_one, lmp_list = list_two, comm_nthreads = 2\<rparr>"

text \<open>
  A dielectric configuration with two types: an owned particle of type 1 at the origin
  and a ghost particle of type 2 at distance \<open>2\<close>, charges \<open>+1\<close> and \<open>-1\<close>, \<open>eps_s = 80\<close>
  (so \<open>a_eps = 42.6\<close> and \<open>b_eps = 37.4\<close>), \<open>rme = 2\<close> for every pair, and a width and an
  offset that differ between the pairs \<open>(1,1)\<close> and \<open>(1,2)\<close>.
\<close>

definition atom_ghost :: atom_t where
  "atom_ghost =
     \<lparr>nlocal = 1, nghost = 1, ntypes = 2,
      atom_x = (\<lambda>i k. if i = 1 \<and> k = 0 then Fin 2 else Fin 0),
      atom_f = (\<lambda>i k. Fin 0),
      atom_q = (\<lambda>i. if i = 0 then Fin 1 else Fin (- 1)),
      atom_type = (\<lambda>i. if i = 0 then 1 else 2)\<rparr>"

definition diel_eighty :: pair_coul_diel where
  "diel_eighty =
     \<lparr>allocated = True, setflag = (\<lambda>i j. 1), cutsq = (\<lambda>i j. Fin 25), cut = (\<lambda>i j. Fin 5),
      cut_global = Fin 5, offset_flag = 1, mix_flag = 0, evflag = True, vflag_fdotr = False,
      eng_coul = Fin 0, virial = (\<lambda>k. Fin 0),
      sigmae = (\<lambda>i j. if i = j then Fin 1 else Fin (1 / 2)),
      rme = (\<lambda>i j. Fin 2),
      offset = (\<lambda>i j. if i = j then Fin 1 else Fin 0),
      eps_s = Fin 80, a_eps = Fin (213 / 5), b_eps = Fin (187 / 5)\<rparr>"

definition lammps_ghost :: lammps where
  "lammps_ghost =
     \<lparr>lmp_atom = atom_ghost, lmp_force = force_one, lmp_list = list_two, comm_nthreads = 2\<rparr>"

text \<open>The same tables with the pair \<open>(1, 2)\<close> never set.\<close>

definition diel_unset :: pair_coul_diel where
  "diel_unset = diel_eighty\<lparr>setflag := (\<lambda>i j. if i = 1 \<and> j = 2 then 0 else 1)\<rparr>"

definition debye_unset :: pair_coul_debye where
  "debye_unset = debye_half\<lparr>setflag := (\<lambda>i j. 0), cut := (\<lambda>i j. Fin 7)\<rparr>"

text \<open>A new instance of the dielectric style, before any command has set a value.\<close>

definition diel_blank :: pair_coul_diel where
  "diel_blank =
     \<lparr>allocated = False, setflag = (\<lambda>i j. 0), cutsq = (\<lambda>i j. Fin 0), cut = (\<lambda>i j. Fin 0),
      cut_global = Fin 0, offset_flag = 0, mix_flag = 0, evflag = False, vflag_fdotr = False,
      eng_coul = Fin 0, virial = (\<lambda>k. Fin 0),
      sigmae = (\<lambda>i j. Fin 0), rme = (\<lambda>i j. Fin 0), offset = (\<lambda>i j. Fin 0),
      eps_s = Fin 0, a_eps = Fin 0, b_eps = Fin 0\<rparr>"

text \<open>Two particles at the same position.\<close>

definition atom_coincident :: atom_t where
  "atom_coincident = atom_two\<lparr>atom_x := (\<lambda>i k. Fin 0)\<rparr>"

text \<open>The dielectric tables with the offset \<open>1/4\<close> for every pair.\<close>

definition diel_shifted :: pair_coul_diel where
  "diel_shifted = diel_eighty\<lparr>offset := (\<lambda>i j. Fin (1 / 4))\<rparr>"

text \<open>The dielectric tables with the cutoff \<open>2\<close> for every pair, offset mode on.\<close>

definition diel_cut_two :: pair_coul_diel where
  "diel_cut_two = diel_eighty\<lparr>cut := (\<lambda>i j. Fin 2), cutsq := (\<lambda>i j. Fin 4)\<rparr>"

section \<open>Properties\<close>

subsection \<open>Auxiliary facts\<close>

lemmas dbl_arith = plus_dbl_def uminus_dbl_def minus_dbl_def times_dbl_def
  divide_dbl_def less_dbl_def less_eq_dbl_def inf_sign_def

lemma apply_force_owner:
  "i \<noteq> j \<Longrightarrow> apply_force N nl i j dx dy dz fp fb i
     = (fb i)(0 := fb i 0 + dx * fp, 1 := fb i 1 + dy * fp, 2 := fb i 2 + dz * fp)"
  by (simp add: apply_force_def add3_def sub3_def Let_def)

lemma apply_force_partner:
  "i \<noteq> j \<Longrightarrow> apply_force N nl i j dx dy dz fp fb j
     = (if N \<or> j < nl
        then (fb j)(0 := fb j 0 - dx * fp, 1 := fb j 1 - dy * fp, 2 := fb j 2 - dz * fp)
        else fb j)"
  by (simp add: apply_force_def add3_def sub3_def Let_def)

lemma apply_force_other:
  "k \<noteq> i \<Longrightarrow> k \<noteq> j \<Longrightarrow> apply_force N nl i j dx dy dz fp fb k = fb k"
  by (simp add: apply_force_def add3_def sub3_def Let_def)

lemma thr_f_ev_tally_thr [simp]:
  "thr_f (ev_tally_thr i j nl N evdwl ecoul fpair dx dy dz t) = thr_f t"
  by (simp add: ev_tally_thr_def Let_def)

lemma debye_kernel_fst:
  "fst (debye_kernel EFLAG qq kap qtmp qj fc rsq) = fst (debye_kernel False qq kap qtmp qj fc rsq)"
  by (simp add: debye_kernel_def Let_def)

lemma diel_kernel_fst:
  "fst (diel_kernel EFLAG p qq qtmp qj it jt fc rsq) = fst (diel_kernel False p qq qtmp qj it jt fc rsq)"
  by (simp add: diel_kernel_def Let_def)

lemma debye_pair_thr_f:
  "thr_f (debye_pair EVFLAG EFLAG N p a fr i j0 t) =
     (let nall = nlocal a + nghost a;
          fc = fst (decode_j fr nall j0);
          j = snd (decode_j fr nall j0);
          delx = atom_x a i 0 - atom_x a j 0;
          dely = atom_x a i 1 - atom_x a j 1;
          delz = atom_x a i 2 - atom_x a j 2;
          rsq = delx * delx + dely * dely + delz * delz
      in if rsq < cutsq p (atom_type a i) (atom_type a j)
         then apply_force N (nlocal a) i j delx dely delz
                (fst (debye_kernel False (qqrd2e fr) (kappa p) (atom_q a i) (atom_q a j) fc rsq))
                (thr_f t)
         else thr_f t)"
  unfolding debye_pair_def Let_def
  by (simp add: split_beta debye_kernel_fst [of EFLAG])

lemma diel_pair_thr_f:
  "thr_f (diel_pair EVFLAG EFLAG N jt p a fr i j0 t) =
     (let nall = nlocal a + nghost a;
          fc = fst (decode_j fr nall j0);
          j = snd (decode_j fr nall j0);
          delx = atom_x a i 0 - atom_x a j 0;
          dely = atom_x a i 1 - atom_x a j 1;
          delz = atom_x a i 2 - atom_x a j 2;
          rsq = delx * delx + dely * dely + delz * delz
      in if rsq < cutsq p (atom_type a i) jt
         then apply_force N (nlocal a) i j delx dely delz
                (fst (diel_kernel False p (qqrd2e fr) (atom_q a i) (atom_q a j) (atom_type a i) jt fc rsq))
                (thr_f t)
         else thr_f t)"
  unfolding diel_pair_def Let_def
  by (simp add: split_beta diel_kernel_fst [of EFLAG])


lemma fold_related:
  assumes "\<And>x s1 s2. R s1 s2 \<Longrightarrow> R (f x s1) (g x s2)" and "R s1 s2"
  shows "R (fold f xs s1) (fold g xs s2)"
  using assms(2)
proof (induction xs arbitrary: s1 s2)
  case Nil
  then show ?case by simp
next
  case (Cons x xs)
  then show ?case by (simp add: assms(1))
qed

lemma debye_pair_forces_cong:
  assumes "cutsq p = cutsq p'" and "kappa p = kappa p'" and "thr_f t = thr_f t'"
  shows "thr_f (debye_pair EV EF N p a fr i j0 t) = thr_f (debye_pair EV' EF' N p' a fr i j0 t')"
  by (simp add: debye_pair_thr_f Let_def assms)

lemma debye_loop_forces_cong:
  assumes "cutsq p = cutsq p'" and "kappa p = kappa p'" and "thr_f t = thr_f t'"
  shows "thr_f (debye_loop EV EF N p a fr l m n t) = thr_f (debye_loop EV' EF' N p' a fr l m n t')"
  unfolding debye_loop_def Let_def
  by (rule fold_related [where R = "\<lambda>u v. thr_f u = thr_f v"], rule fold_related [where R = "\<lambda>u v. thr_f u = thr_f v"])
     (simp_all add: debye_pair_forces_cong assms)

lemma diel_kernel_cong:
  assumes "rme p = rme p'" and "sigmae p = sigmae p'" and "offset p = offset p'"
    and "eps_s p = eps_s p'" and "a_eps p = a_eps p'" and "b_eps p = b_eps p'"
  shows "diel_kernel EF p qq qtmp qj it jt fc rsq = diel_kernel EF p' qq qtmp qj it jt fc rsq"
  unfolding diel_kernel_def Let_def by (simp add: assms)

lemma diel_pair_forces_cong:
  assumes "cutsq p = cutsq p'" and "rme p = rme p'" and "sigmae p = sigmae p'"
    and "offset p = offset p'" and "eps_s p = eps_s p'" and "a_eps p = a_eps p'"
    and "b_eps p = b_eps p'" and "thr_f t = thr_f t'"
  shows "thr_f (diel_pair EV EF N jt p a fr i j0 t) = thr_f (diel_pair EV' EF' N jt p' a fr i j0 t')"
  by (simp add: diel_pair_thr_f Let_def assms(1,8) diel_kernel_cong [OF assms(2-7)])

lemma diel_loop_forces_cong:
  assumes "cutsq p = cutsq p'" and "rme p = rme p'" and "sigmae p = sigmae p'"
    and "offset p = offset p'" and "eps_s p = eps_s p'" and "a_eps p = a_eps p'"
    and "b_eps p = b_eps p'" and "thr_f t = thr_f t'"
  shows "thr_f (diel_loop EV EF N jt p a fr l m n t) = thr_f (diel_loop EV' EF' N jt p' a fr l m n t')"
  unfolding diel_loop_def Let_def
  by (rule fold_related [where R = "\<lambda>u v. thr_f u = thr_f v"], rule fold_related [where R = "\<lambda>u v. thr_f u = thr_f v"])
     (simp_all add: diel_pair_forces_cong [OF assms(1-7)] assms(8))

lemma force_reduce_thr_cong:
  assumes "map thr_f ts = map thr_f ts'"
  shows "force_reduce_thr nall ts fg = force_reduce_thr nall ts' fg"
proof -
  have *: "fold (\<lambda>t s. s + thr_f t k c) us z = fold (\<lambda>fb s. s + fb k c) (map thr_f us) z"
    for us :: "thr_t list" and k c z
    by (simp add: fold_map comp_def)
  show ?thesis
    unfolding force_reduce_thr_def * assms ..
qed

lemma debye_eval_forces:
  assumes "cutsq p = cutsq p'" and "kappa p = kappa p'"
  shows "atom_f (lmp_atom (snd (debye_eval EV EF N vc p s)))
       = atom_f (lmp_atom (snd (debye_eval EV' EF' N vc p' s)))"
  unfolding debye_eval_def Let_def
  by (simp add: split_beta, rule force_reduce_thr_cong)
     (simp add: debye_loop_forces_cong [OF assms])

lemma diel_eval_forces:
  assumes "cutsq p = cutsq p'" and "rme p = rme p'" and "sigmae p = sigmae p'"
    and "offset p = offset p'" and "eps_s p = eps_s p'" and "a_eps p = a_eps p'"
    and "b_eps p = b_eps p'"
  shows "atom_f (lmp_atom (snd (diel_eval EV EF N jtype0 vc p s)))
       = atom_f (lmp_atom (snd (diel_eval EV' EF' N jtype0 vc p' s)))"
  unfolding diel_eval_def Let_def
  by (simp add: split_beta, rule force_reduce_thr_cong)
     (simp add: diel_loop_forces_cong [OF assms])

lemma debye_compute_forces:
  "atom_f (lmp_atom (snd (debye_compute ev vc eflag vflag p s)))
     = atom_f (lmp_atom (snd (debye_eval False False (newton_pair (lmp_force s)) vc p s)))"
  unfolding debye_compute_def Let_def
  by (auto intro!: debye_eval_forces simp: ev_setup_def)

lemma diel_compute_forces:
  "atom_f (lmp_atom (snd (diel_compute ev jtype0 vc eflag vflag p s)))
     = atom_f (lmp_atom (snd (diel_eval False False (newton_pair (lmp_force s)) jtype0 vc p s)))"
  unfolding diel_compute_def Let_def
  by (auto intro!: diel_eval_forces simp: ev_setup_def)

lemma upt_two: "[0..<2] = [0, 1]"
  by (simp add: upt_rec)

text \<open>The slice of a thread lies inside the owner list, so \<open>ilist[ii]\<close> is read in range.\<close>

lemma slice_bound:
  fixes tid n b r :: nat
  assumes "tid < n" and "r < n"
  shows "tid * b + min tid r + b + (if tid < r then 1 else 0) \<le> n * b + r"
proof -
  have "Suc tid * b \<le> n * b"
    using assms(1) by (intro mult_le_mono1) simp
  then have "tid * b + b \<le> n * b" by simp
  then show ?thesis
    by (cases "tid < r") (auto simp: min_def)
qed

lemma loop_setup_thr_in_range:
  assumes "tid < nthreads"
  shows "fst (loop_setup_thr tid inum nthreads) \<le> snd (loop_setup_thr tid inum nthreads)
       \<and> snd (loop_setup_thr tid inum nthreads) \<le> inum"
proof -
  define b r where "b = inum div nthreads" and "r = inum mod nthreads"
  have "r < nthreads"
    using assms by (simp add: r_def)
  then have "tid * b + min tid r + b + (if tid < r then 1 else 0) \<le> nthreads * b + r"
    using assms by (intro slice_bound)
  moreover have "nthreads * b + r = inum"
    by (simp add: b_def r_def)
  ultimately show ?thesis
    by (simp add: loop_setup_thr_def Let_def b_def r_def)
qed

subsection \<open>Forces do not depend on energy accounting\<close>

text \<open>
  For the Debye style the forces after \<open>compute\<close> are the same for any two values of
  \<open>eflag\<close>. For the dielectric style they are the same when the unassigned \<open>jtype\<close> holds
  the same values in the two instances of \<open>eval\<close> that the two calls run.
\<close>

lemma debye_forces_independent_of_energy_flag:
  "atom_f (lmp_atom (snd (debye_compute ev vc eflag vflag p s)))
     = atom_f (lmp_atom (snd (debye_compute ev vc eflag' vflag p s)))"
  by (simp add: debye_compute_forces)

lemma diel_forces_with_equal_jtype:
  "atom_f (lmp_atom (snd (diel_compute ev jtype0 vc eflag vflag pd s)))
     = atom_f (lmp_atom (snd (diel_compute ev jtype0 vc eflag' vflag pd s)))"
  by (simp add: diel_compute_forces)

lemma dadd_Fin_zero: "dadd (Fin 0) x = x" "dadd x (Fin 0) = x"
  by (cases x; simp)+

lemma diel_ghost_force:
  "atom_f (lmp_atom (snd (diel_compute (\<lambda>e v. (True, False)) (\<lambda>tid. jt) (\<lambda>a k. Fin 0) eflag 0
       diel_eighty lammps_ghost))) 0 0
     = Fin (- 2) * fst (diel_kernel False diel_eighty (Fin 1) (Fin 1) (Fin (- 1)) 1 jt (Fin 1) (Fin 4))"
  by (simp add: diel_compute_forces diel_eval_def diel_loop_def Let_def upt_two lammps_ghost_def
      list_two_def loop_setup_thr_def force_reduce_thr_def diel_pair_thr_f decode_j_def
      atom_ghost_def force_one_def thr_zero_def apply_force_def add3_def sub3_def
      ev_reduce_thr_def)
    (simp add: diel_eighty_def dbl_arith dadd_Fin_zero)

text \<open>
  C7 at a failing input. The dielectric tables differ between the type pairs \<open>(1,1)\<close> and
  \<open>(1,2)\<close>; one owner of type 1 with one neighbour of type 2 at distance \<open>2\<close>. With energy
  accounting on, \<open>compute\<close> runs the instance of \<open>eval\<close> with \<open>EFLAG\<close> set, and with
  energy accounting off another instance, each with an unassigned \<open>jtype\<close> of its own.
  When the first holds 2 and the second holds 1, the first component of the owner's force
  is \<open>339031/181476\<close> after the first run and \<open>189431/181476\<close> after the second: the two
  runs do not produce the same force array.
\<close>

theorem C7_dielectric_forces_follow_unassigned_jtype:
  "atom_f (lmp_atom (snd (diel_compute (\<lambda>e v. (True, False)) (\<lambda>tid. 2) (\<lambda>a k. Fin 0) 1 0
       diel_eighty lammps_ghost))) 0 0
     = Fin (339031 / 181476)
   \<and> atom_f (lmp_atom (snd (diel_compute (\<lambda>e v. (True, False)) (\<lambda>tid. 1) (\<lambda>a k. Fin 0) 0 0
       diel_eighty lammps_ghost))) 0 0
     = Fin (189431 / 181476)"
proof -
  have s4: "sqrt 4 = (2::real)"
    using real_sqrt_abs [of 2] by simp
  have "fst (diel_kernel False diel_eighty (Fin 1) (Fin 1) (Fin (- 1)) 1 2 (Fin 1) (Fin 4))
      = Fin (- (339031 / 362952))"
    by (simp add: diel_kernel_def diel_eighty_def Let_def dbl_arith s4)
  moreover have "fst (diel_kernel False diel_eighty (Fin 1) (Fin 1) (Fin (- 1)) 1 1 (Fin 1) (Fin 4))
      = Fin (- (189431 / 362952))"
    by (simp add: diel_kernel_def diel_eighty_def Let_def dbl_arith s4)
  ultimately show ?thesis
    by (simp add: diel_ghost_force dbl_arith)
qed

theorem C7_witness:
  "atom_f (lmp_atom (snd (diel_compute (\<lambda>e v. (True, False)) (\<lambda>tid. 2) (\<lambda>a k. Fin 0) 1 0
       diel_eighty lammps_ghost))) 0 0
   \<noteq> atom_f (lmp_atom (snd (diel_compute (\<lambda>e v. (True, False)) (\<lambda>tid. 1) (\<lambda>a k. Fin 0) 0 0
       diel_eighty lammps_ghost))) 0 0"
  using C7_dielectric_forces_follow_unassigned_jtype by simp

subsection \<open>Owner and partner accumulation\<close>

text \<open>
  C4. For a pair of distinct particles that passes the cutoff test of the \<open>eval\<close> loop
  (either style), the force \<open>del * fpair\<close> is added to the three components of the
  owner's slot of the thread's buffer; the same vector is subtracted from the partner's
  slot if and only if \<open>NEWTON_PAIR\<close> is on or the decoded partner index is below
  \<open>nlocal\<close>, and otherwise the partner's slot is left as it was; no other slot changes.
\<close>

theorem C4_owner_and_partner_accumulation:
  assumes "decode_j fr (nlocal a + nghost a) j0 = (factor_coul, j)"
    and "delx = atom_x a i 0 - atom_x a j 0"
    and "dely = atom_x a i 1 - atom_x a j 1"
    and "delz = atom_x a i 2 - atom_x a j 2"
    and "rsq = delx * delx + dely * dely + delz * delz"
    and "i \<noteq> j"
  shows
    "(rsq < cutsq p (atom_type a i) (atom_type a j) \<longrightarrow>
       (let fpair = fst (debye_kernel EFLAG (qqrd2e fr) (kappa p) (atom_q a i) (atom_q a j)
                           factor_coul rsq);
            t' = debye_pair EVFLAG EFLAG NEWTON_PAIR p a fr i j0 t
        in thr_f t' i = (thr_f t i)(0 := thr_f t i 0 + delx * fpair,
                                    1 := thr_f t i 1 + dely * fpair,
                                    2 := thr_f t i 2 + delz * fpair)
         \<and> thr_f t' j = (if NEWTON_PAIR \<or> j < nlocal a
                          then (thr_f t j)(0 := thr_f t j 0 - delx * fpair,
                                           1 := thr_f t j 1 - dely * fpair,
                                           2 := thr_f t j 2 - delz * fpair)
                          else thr_f t j)
         \<and> (\<forall>k. k \<noteq> i \<and> k \<noteq> j \<longrightarrow> thr_f t' k = thr_f t k)))
   \<and> (rsq < cutsq pd (atom_type a i) jtype \<longrightarrow>
       (let fpair = fst (diel_kernel EFLAG pd (qqrd2e fr) (atom_q a i) (atom_q a j)
                           (atom_type a i) jtype factor_coul rsq);
            t' = diel_pair EVFLAG EFLAG NEWTON_PAIR jtype pd a fr i j0 t
        in thr_f t' i = (thr_f t i)(0 := thr_f t i 0 + delx * fpair,
                                    1 := thr_f t i 1 + dely * fpair,
                                    2 := thr_f t i 2 + delz * fpair)
         \<and> thr_f t' j = (if NEWTON_PAIR \<or> j < nlocal a
                          then (thr_f t j)(0 := thr_f t j 0 - delx * fpair,
                                           1 := thr_f t j 1 - dely * fpair,
                                           2 := thr_f t j 2 - delz * fpair)
                          else thr_f t j)
         \<and> (\<forall>k. k \<noteq> i \<and> k \<noteq> j \<longrightarrow> thr_f t' k = thr_f t k)))"
proof -
  have deb: "thr_f (debye_pair EVFLAG EFLAG NEWTON_PAIR p a fr i j0 t)
      = apply_force NEWTON_PAIR (nlocal a) i j delx dely delz
          (fst (debye_kernel EFLAG (qqrd2e fr) (kappa p) (atom_q a i) (atom_q a j) factor_coul rsq))
          (thr_f t)"
    if "rsq < cutsq p (atom_type a i) (atom_type a j)"
    using that assms(1-5)
    by (simp add: debye_pair_thr_f Let_def debye_kernel_fst [of EFLAG])
  have die: "thr_f (diel_pair EVFLAG EFLAG NEWTON_PAIR jtype pd a fr i j0 t)
      = apply_force NEWTON_PAIR (nlocal a) i j delx dely delz
          (fst (diel_kernel EFLAG pd (qqrd2e fr) (atom_q a i) (atom_q a j) (atom_type a i) jtype
                  factor_coul rsq))
          (thr_f t)"
    if "rsq < cutsq pd (atom_type a i) jtype"
    using that assms(1-5)
    by (simp add: diel_pair_thr_f Let_def diel_kernel_fst [of EFLAG])
  show ?thesis
    using \<open>i \<noteq> j\<close>
    by (simp add: Let_def deb die apply_force_owner apply_force_partner apply_force_other)
qed

theorem C4_witness:
  "thr_f (debye_pair True True False debye_half atom_two force_one 0 1 thr_zero) 1 0
     = Fin (- (3 / 2 * exp (- (1 / 2))))
   \<and> thr_f (diel_pair True True False 2 diel_eighty atom_ghost force_one 0 1 thr_zero) 1
     = (\<lambda>c. Fin 0)"
proof -
  have k: "fst (debye_kernel True (Fin 1) (Fin (1 / 2)) (Fin 1) (Fin (- 1)) (Fin 1) (Fin 1))
      = Fin (- (3 / 2 * exp (- (1 / 2))))"
    by (simp add: debye_kernel_def dbl_arith Let_def)
  have h1: "decode_j force_one (nlocal atom_two + nghost atom_two) 1 = (Fin 1, 1)"
    by (simp add: decode_j_def atom_two_def)
  have h2: "Fin (- 1) = atom_x atom_two 0 0 - atom_x atom_two 1 0"
    and h3: "Fin 0 = atom_x atom_two 0 1 - atom_x atom_two 1 1"
    and h4: "Fin 0 = atom_x atom_two 0 2 - atom_x atom_two 1 2"
    and h5: "Fin 1 = Fin (- 1) * Fin (- 1) + Fin 0 * Fin 0 + Fin 0 * Fin 0"
    and h6: "(0::nat) \<noteq> 1"
    and h7: "Fin 1 < cutsq debye_half (atom_type atom_two 0) (atom_type atom_two 1)"
    by (simp_all add: atom_two_def debye_half_def dbl_arith)
  note A = C4_owner_and_partner_accumulation [OF h1 h2 h3 h4 h5 h6, THEN conjunct1, rule_format, OF h7,
      where EFLAG = True and EVFLAG = True and NEWTON_PAIR = False and t = thr_zero]
  have a: "thr_f (debye_pair True True False debye_half atom_two force_one 0 1 thr_zero) 1 0
     = Fin (- (3 / 2 * exp (- (1 / 2))))"
    using A
    by (simp add: Let_def atom_two_def force_one_def debye_half_def k thr_zero_def dbl_arith)
  have g1: "decode_j force_one (nlocal atom_ghost + nghost atom_ghost) 1 = (Fin 1, 1)"
    by (simp add: decode_j_def atom_ghost_def)
  have g2: "Fin (- 2) = atom_x atom_ghost 0 0 - atom_x atom_ghost 1 0"
    and g3: "Fin 0 = atom_x atom_ghost 0 1 - atom_x atom_ghost 1 1"
    and g4: "Fin 0 = atom_x atom_ghost 0 2 - atom_x atom_ghost 1 2"
    and g5: "Fin 4 = Fin (- 2) * Fin (- 2) + Fin 0 * Fin 0 + Fin 0 * Fin 0"
    and g7: "Fin 4 < cutsq diel_eighty (atom_type atom_ghost 0) 2"
    by (simp_all add: atom_ghost_def diel_eighty_def dbl_arith)
  note B = C4_owner_and_partner_accumulation [OF g1 g2 g3 g4 g5 h6, THEN conjunct2, rule_format, OF g7,
      where EFLAG = True and EVFLAG = True and NEWTON_PAIR = False and t = thr_zero]
  have b: "thr_f (diel_pair True True False 2 diel_eighty atom_ghost force_one 0 1 thr_zero) 1
     = (\<lambda>c. Fin 0)"
    using B by (simp add: Let_def atom_ghost_def thr_zero_def)
  show ?thesis
    using a b by simp
qed

subsection \<open>Re-running the global settings\<close>

lemma reset_cuts_inner:
  "fold (\<lambda>j p2. if setflag p2 i j \<noteq> 0
                  then p2\<lparr>cut := (cut p2)(i := (cut p2 i)(j := cut_global p2))\<rparr>
                  else p2) js p
   = p\<lparr>cut := (\<lambda>a b. if a = i \<and> b \<in> set js \<and> setflag p i b \<noteq> 0
                     then cut_global p else cut p a b)\<rparr>"
proof (induction js arbitrary: p)
  case Nil
  then show ?case by simp
next
  case (Cons x xs)
  show ?case
    by (simp add: Cons.IH) (auto simp: fun_eq_iff intro!: arg_cong2 [where f = "\<lambda>f r. cut_update f r"])
qed

lemma reset_cuts_outer:
  "fold (\<lambda>i p1. p1\<lparr>cut := (\<lambda>a b. if a = i \<and> b \<in> set (js i) \<and> setflag p1 i b \<noteq> 0
                                  then cut_global p1 else cut p1 a b)\<rparr>) is p
   = p\<lparr>cut := (\<lambda>a b. if a \<in> set is \<and> b \<in> set (js a) \<and> setflag p a b \<noteq> 0
                     then cut_global p else cut p a b)\<rparr>"
proof (induction "is" arbitrary: p)
  case Nil
  then show ?case by simp
next
  case (Cons x xs)
  show ?case
    by (simp add: Cons.IH) (auto simp: fun_eq_iff intro!: arg_cong2 [where f = "\<lambda>f r. cut_update f r"])
qed

lemma reset_cuts_eq:
  "reset_cuts n p
   = p\<lparr>cut := (\<lambda>a b. if 1 \<le> a \<and> a < b \<and> b \<le> n \<and> setflag p a b \<noteq> 0
                     then cut_global p else cut p a b)\<rparr>"
proof -
  have "reset_cuts n p
      = p\<lparr>cut := (\<lambda>a b. if a \<in> set [1..<n + 1] \<and> b \<in> set [a + 1..<n + 1] \<and> setflag p a b \<noteq> 0
                        then cut_global p else cut p a b)\<rparr>"
    unfolding reset_cuts_def reset_cuts_inner
    by (rule reset_cuts_outer [where js = "\<lambda>i. [i + 1..<n + 1]"])
  also have "(\<lambda>a b. if a \<in> set [1..<n + 1] \<and> b \<in> set [a + 1..<n + 1] \<and> setflag p a b \<noteq> 0
                        then cut_global p else cut p a b)
      = (\<lambda>a b. if 1 \<le> a \<and> a < b \<and> b \<le> n \<and> setflag p a b \<noteq> 0
                     then cut_global p else cut p a b)"
    by (auto simp: fun_eq_iff)
  finally show ?thesis .
qed

text \<open>
  C10. \<open>settings\<close> with a well-formed argument list succeeds, and afterwards the stored
  cutoff of a pair \<open>(i, j)\<close> is the new global cutoff exactly when the tables are
  allocated, the pair is flagged as set and \<open>1 \<le> i < j \<le> ntypes\<close>; every other entry, in
  particular that of a same-type pair \<open>(i, i)\<close>, keeps the cutoff it had. Both styles.
\<close>

theorem C10_settings_resets_only_off_diagonal:
  "(\<exists>p'. debye_settings [k, c] a p = Inr p'
        \<and> (\<forall>i j. cut p' i j =
              (if allocated p \<and> 1 \<le> i \<and> i < j \<and> j \<le> ntypes a \<and> setflag p i j \<noteq> 0
               then c else cut p i j))
        \<and> (\<forall>i. cut p' i i = cut p i i))
   \<and> (\<exists>p'. diel_settings [c] a pd = Inr p'
        \<and> (\<forall>i j. cut p' i j =
              (if allocated pd \<and> 1 \<le> i \<and> i < j \<and> j \<le> ntypes a \<and> setflag pd i j \<noteq> 0
               then c else cut pd i j))
        \<and> (\<forall>i. cut p' i i = cut pd i i))"
  by (simp add: debye_settings_def diel_settings_def Let_def reset_cuts_eq)

theorem C10_witness:
  "(\<exists>p'. debye_settings [Fin 1, Fin 3] atom_two debye_half = Inr p' \<and> cut p' 1 1 = Fin 5)
   \<and> (\<exists>p'. diel_settings [Fin 3] atom_ghost diel_eighty = Inr p'
          \<and> cut p' 1 1 = Fin 5 \<and> cut p' 1 2 = Fin 3 \<and> cut p' 2 1 = Fin 5 \<and> cut p' 2 2 = Fin 5)"
proof -
  have "allocated debye_half" "cut debye_half 1 1 = Fin 5" "allocated diel_eighty"
    "setflag diel_eighty 1 2 = 1" "ntypes atom_ghost = 2" "\<And>i j. cut diel_eighty i j = Fin 5"
    by (simp_all add: debye_half_def diel_eighty_def atom_ghost_def)
  then show ?thesis
    using C10_settings_resets_only_off_diagonal [of "Fin 1" "Fin 3" atom_two debye_half diel_eighty]
      C10_settings_resets_only_off_diagonal [of "Fin 1" "Fin 3" atom_ghost debye_half diel_eighty]
    by (auto simp: )
qed

subsection \<open>Initialisation of the type pairs\<close>

lemma diel_init_one_setflag:
  "diel_init_one a fr k l p = Inr (p1, c) \<Longrightarrow> setflag p1 = setflag p"
  by (auto simp: diel_init_one_def Let_def split: if_splits)

lemma diel_init_one_unset:
  "setflag p i j = 0 \<Longrightarrow> diel_init_one a fr i j p = Inl Parameters_need_to_be_set_explicitly"
  by (simp add: diel_init_one_def)

lemma diel_init_one_set:
  "setflag p i j \<noteq> 0 \<Longrightarrow> \<exists>p1 c. diel_init_one a fr i j p = Inr (p1, c)"
  by (simp add: diel_init_one_def Let_def)

lemma diel_init_one_error:
  "diel_init_one a fr i j p = Inl e \<Longrightarrow> e = Parameters_need_to_be_set_explicitly"
  by (auto simp: diel_init_one_def Let_def split: if_splits)

lemma diel_init_pairs_unset:
  "(i, j) \<in> set ps \<Longrightarrow> setflag p i j = 0
     \<Longrightarrow> diel_init_pairs a fr ps p = Inl Parameters_need_to_be_set_explicitly"
proof (induction ps arbitrary: p)
  case Nil
  then show ?case by simp
next
  case (Cons x xs)
  obtain k l where x: "x = (k, l)" by (cases x)
  show ?case
  proof (cases "diel_init_one a fr k l p")
    case (Inl e)
    then show ?thesis using x diel_init_one_error [OF Inl] by simp
  next
    case (Inr r)
    obtain p1 c where r: "r = (p1, c)" by (cases r)
    have sf: "setflag p1 = setflag p"
      using Inr r diel_init_one_setflag by blast
    have "(i, j) \<noteq> (k, l)"
      using Inr Cons.prems(2) diel_init_one_unset [of p i j a fr] by auto
    then have "(i, j) \<in> set xs"
      using Cons.prems(1) x by auto
    then have "diel_init_pairs a fr xs p1 = Inl Parameters_need_to_be_set_explicitly"
      using Cons.IH [of p1] sf Cons.prems(2) by simp
    then show ?thesis using x Inr r by simp
  qed
qed

lemma diel_init_pairs_set:
  "\<forall>(i, j) \<in> set ps. setflag p i j \<noteq> 0 \<Longrightarrow> \<exists>p'. diel_init_pairs a fr ps p = Inr p'"
proof (induction ps arbitrary: p)
  case Nil
  then show ?case by simp
next
  case (Cons x xs)
  obtain k l where x: "x = (k, l)" by (cases x)
  then obtain p1 c where one: "diel_init_one a fr k l p = Inr (p1, c)"
    using Cons.prems diel_init_one_set [of p k l a fr] by auto
  have "setflag p1 = setflag p"
    using one by (rule diel_init_one_setflag)
  then have "\<exists>p'. diel_init_pairs a fr xs p1 = Inr p'"
    using Cons.IH [of p1] Cons.prems by simp
  then show ?case using x one by simp
qed

lemma diel_init_one_establishes:
  "diel_init_one a fr k l p = Inr (p1, c) \<Longrightarrow> sym_at p1 k l"
  by (auto simp: diel_init_one_def sym_at_def Let_def split: if_splits)

lemma diel_init_one_preserves:
  "diel_init_one a fr k l p = Inr (p1, c) \<Longrightarrow> sym_at p i j \<Longrightarrow> sym_at p1 i j"
  by (auto simp: diel_init_one_def sym_at_def Let_def split: if_splits)

lemma sym_at_commute: "sym_at p i j \<Longrightarrow> sym_at p j i"
  by (simp add: sym_at_def)

lemma diel_init_pairs_preserves:
  "diel_init_pairs a fr ps p = Inr p' \<Longrightarrow> sym_at p i j \<Longrightarrow> sym_at p' i j"
proof (induction ps arbitrary: p)
  case Nil
  then show ?case by simp
next
  case (Cons x xs)
  obtain k l where x: "x = (k, l)" by (cases x)
  from Cons.prems(1) x obtain p1 c where one: "diel_init_one a fr k l p = Inr (p1, c)"
    and rest: "diel_init_pairs a fr xs p1 = Inr p'"
    by (auto split: sum.splits)
  show ?case
    using Cons.IH [OF rest] diel_init_one_preserves [OF one Cons.prems(2)] by simp
qed

lemma diel_init_pairs_symmetric:
  "diel_init_pairs a fr ps p = Inr p' \<Longrightarrow> (i, j) \<in> set ps \<Longrightarrow> sym_at p' i j"
proof (induction ps arbitrary: p)
  case Nil
  then show ?case by simp
next
  case (Cons x xs)
  obtain k l where x: "x = (k, l)" by (cases x)
  from Cons.prems(1) x obtain p1 c where one: "diel_init_one a fr k l p = Inr (p1, c)"
    and rest: "diel_init_pairs a fr xs p1 = Inr p'"
    by (auto split: sum.splits)
  show ?case
  proof (cases "(i, j) = (k, l)")
    case True
    then have "sym_at p1 i j"
      using diel_init_one_establishes [OF one] by simp
    then show ?thesis by (rule diel_init_pairs_preserves [OF rest])
  next
    case False
    then have "(i, j) \<in> set xs" using Cons.prems(2) x by auto
    then show ?thesis by (rule Cons.IH [OF rest])
  qed
qed

lemma diel_eval_tables:
  "sigmae (fst (diel_eval EV EF N jtype0 vc p s)) = sigmae p
   \<and> rme (fst (diel_eval EV EF N jtype0 vc p s)) = rme p
   \<and> cut (fst (diel_eval EV EF N jtype0 vc p s)) = cut p
   \<and> offset (fst (diel_eval EV EF N jtype0 vc p s)) = offset p
   \<and> setflag (fst (diel_eval EV EF N jtype0 vc p s)) = setflag p
   \<and> cutsq (fst (diel_eval EV EF N jtype0 vc p s)) = cutsq p"
  by (simp add: diel_eval_def Let_def ev_reduce_thr_def)

lemma diel_compute_tables:
  "sigmae (fst (diel_compute ev jtype0 vc eflag vflag p s)) = sigmae p
   \<and> rme (fst (diel_compute ev jtype0 vc eflag vflag p s)) = rme p
   \<and> cut (fst (diel_compute ev jtype0 vc eflag vflag p s)) = cut p
   \<and> offset (fst (diel_compute ev jtype0 vc eflag vflag p s)) = offset p"
  by (simp add: diel_compute_def Let_def diel_eval_tables ev_setup_def)

text \<open>
  C9. Once \<open>init_one\<close> has run without error for a sequence of type pairs that contains
  every pair \<open>1 \<le> i \<le> j \<le> ntypes\<close>, the tables \<open>sigmae\<close>, \<open>rme\<close>, \<open>cut\<close> and \<open>offset\<close>
  of the dielectric style are symmetric on all types \<open>1..ntypes\<close>; and \<open>compute\<close> returns
  the four tables as it found them, so the symmetry holds after every evaluation.
\<close>

theorem C9_table_symmetric_and_unchanged:
  assumes "diel_init_pairs a fr ps p = Inr p'"
    and "\<forall>i j. 1 \<le> i \<and> i \<le> j \<and> j \<le> ntypes a \<longrightarrow> (i, j) \<in> set ps"
  shows "(\<forall>i j. 1 \<le> i \<and> i \<le> ntypes a \<and> 1 \<le> j \<and> j \<le> ntypes a \<longrightarrow>
            sigmae p' i j = sigmae p' j i \<and> rme p' i j = rme p' j i
            \<and> cut p' i j = cut p' j i \<and> offset p' i j = offset p' j i)
       \<and> sigmae (fst (diel_compute ev jtype0 vc eflag vflag p' s)) = sigmae p'
       \<and> rme (fst (diel_compute ev jtype0 vc eflag vflag p' s)) = rme p'
       \<and> cut (fst (diel_compute ev jtype0 vc eflag vflag p' s)) = cut p'
       \<and> offset (fst (diel_compute ev jtype0 vc eflag vflag p' s)) = offset p'"
proof -
  have "sym_at p' i j" if "1 \<le> i" "i \<le> ntypes a" "1 \<le> j" "j \<le> ntypes a" for i j
  proof (cases "i \<le> j")
    case True
    then have "(i, j) \<in> set ps" using assms(2) that by blast
    then show ?thesis by (rule diel_init_pairs_symmetric [OF assms(1)])
  next
    case False
    then have "(j, i) \<in> set ps" using assms(2) that by simp
    then have "sym_at p' j i" by (rule diel_init_pairs_symmetric [OF assms(1)])
    then show ?thesis by (rule sym_at_commute)
  qed
  then show ?thesis
    by (simp add: sym_at_def diel_compute_tables)
qed

theorem C9_witness:
  "\<exists>p'. diel_init_pairs atom_ghost force_one [(1, 1), (1, 2), (2, 2)] diel_eighty = Inr p'
      \<and> sigmae p' 2 1 = sigmae p' 1 2 \<and> offset p' 2 1 = offset p' 1 2
      \<and> sigmae (fst (diel_compute (\<lambda>e v. (True, False)) (\<lambda>t. 1) (\<lambda>a k. Fin 0) 1 0 p' lammps_ghost))
          = sigmae p'"
proof -
  have "\<forall>(i, j) \<in> set [(1, 1), (1, 2), (2, 2)]. setflag diel_eighty i j \<noteq> 0"
    by (simp add: diel_eighty_def)
  then obtain p' where
    init: "diel_init_pairs atom_ghost force_one [(1, 1), (1, 2), (2, 2)] diel_eighty = Inr p'"
    using diel_init_pairs_set by blast
  have cover: "\<forall>i j. 1 \<le> i \<and> i \<le> j \<and> j \<le> ntypes atom_ghost
      \<longrightarrow> (i, j) \<in> set [(1, 1), (1, 2), (2, 2)]"
    by (auto simp: atom_ghost_def)
  have n: "ntypes atom_ghost = 2"
    by (simp add: atom_ghost_def)
  show ?thesis
    using init C9_table_symmetric_and_unchanged [OF init cover] n by simp
qed

text \<open>
  C8. For the dielectric style \<open>init_one\<close> of a pair whose \<open>setflag\<close> is 0 is the
  configuration error; an initialisation that goes through a sequence of pairs containing
  such a pair ends in that error, and the run then never reaches \<open>compute\<close>. For the
  Debye style \<open>init_one\<close> of an unset pair returns without error, and the cutoff it stores
  and returns is the global cutoff.
\<close>

theorem C8_unset_pair:
  "(setflag pd i j = 0 \<longrightarrow>
      diel_init_one (lmp_atom s) (lmp_force s) i j pd = Inl Parameters_need_to_be_set_explicitly
      \<and> ((i, j) \<in> set ps \<longrightarrow>
           diel_init_pairs (lmp_atom s) (lmp_force s) ps pd = Inl Parameters_need_to_be_set_explicitly
           \<and> diel_init_then_compute ev jtype0 vc eflag vflag ps pd s
               = Inl Parameters_need_to_be_set_explicitly))
   \<and> (setflag p i j = 0 \<longrightarrow>
        (\<exists>p'. debye_init_one i j p = Inr (p', cut_global p) \<and> cut p' i j = cut_global p))"
  by (simp add: diel_init_one_unset diel_init_pairs_unset diel_init_then_compute_def
      debye_init_one_def Let_def)

theorem C8_witness:
  "diel_init_then_compute (\<lambda>e v. (True, False)) (\<lambda>t. 1) (\<lambda>a k. Fin 0) 1 0 [(1, 1), (1, 2), (2, 2)]
      diel_unset lammps_ghost = Inl Parameters_need_to_be_set_explicitly
   \<and> (\<exists>p'. debye_init_one 1 1 debye_unset = Inr (p', Fin 5) \<and> cut p' 1 1 = Fin 5)"
proof -
  have "setflag diel_unset 1 2 = 0" and "(1, 2) \<in> set [(1::nat, 1::nat), (1, 2), (2, 2)]"
    and "setflag debye_unset 1 1 = 0" and "cut_global debye_unset = Fin 5"
    by (simp_all add: diel_unset_def debye_unset_def debye_half_def)
  then show ?thesis
    using C8_unset_pair [of diel_unset 1 2 lammps_ghost "[(1, 1), (1, 2), (2, 2)]"
        "\<lambda>e v. (True, False)" "\<lambda>t. 1" "\<lambda>a k. Fin 0" 1 0 debye_unset]
      C8_unset_pair [of diel_unset 1 1 lammps_ghost "[(1, 1), (1, 2), (2, 2)]"
        "\<lambda>e v. (True, False)" "\<lambda>t. 1" "\<lambda>a k. Fin 0" 1 0 debye_unset]
    by simp
qed

subsection \<open>The restart file\<close>

lemma fold_invariant:
  assumes "\<And>x s. P s \<Longrightarrow> P (f x s)" and "P s"
  shows "P (fold f xs s)"
  using assms(2) by (induction xs arbitrary: s) (simp_all add: assms(1))

lemma debye_settings_roundtrip:
  "debye_read_restart_settings (debye_write_restart_settings p [] @ rest) q
     = (q\<lparr>cut_global := cut_global p, kappa := kappa p, offset_flag := offset_flag p,
          mix_flag := mix_flag p\<rparr>, rest)"
  by (simp add: debye_read_restart_settings_def debye_write_restart_settings_def
      fwrite_double_def fwrite_int_def)

lemma diel_settings_roundtrip:
  "diel_read_restart_settings (diel_write_restart_settings p [] @ rest) q
     = (q\<lparr>cut_global := cut_global p, offset_flag := offset_flag p, mix_flag := mix_flag p\<rparr>, rest)"
  by (simp add: diel_read_restart_settings_def diel_write_restart_settings_def
      fwrite_double_def fwrite_int_def)

lemma diel_read_restart_settings_eps:
  "eps_s (fst (diel_read_restart_settings fp q)) = eps_s q
   \<and> a_eps (fst (diel_read_restart_settings fp q)) = a_eps q
   \<and> b_eps (fst (diel_read_restart_settings fp q)) = b_eps q"
  by (simp add: diel_read_restart_settings_def split_beta Let_def)

lemma diel_read_restart_eps:
  "eps_s (fst (diel_read_restart a fp q)) = eps_s q
   \<and> a_eps (fst (diel_read_restart a fp q)) = a_eps q
   \<and> b_eps (fst (diel_read_restart a fp q)) = b_eps q"
proof -
  let ?P = "\<lambda>s :: pair_coul_diel \<times> restart_file.
      eps_s (fst s) = eps_s q \<and> a_eps (fst s) = a_eps q \<and> b_eps (fst s) = b_eps q"
  obtain p1 fp1 where r: "diel_read_restart_settings fp q = (p1, fp1)"
    by (cases "diel_read_restart_settings fp q")
  have start: "?P (diel_allocate a p1, fp1)"
    using diel_read_restart_settings_eps [of fp q] r by (simp add: diel_allocate_def)
  have "?P (diel_read_restart a fp q)"
    unfolding diel_read_restart_def r Let_def prod.case
    by (rule fold_invariant [where P = ?P], rule fold_invariant [where P = ?P])
       (use start in \<open>auto simp: split_beta\<close>)
  then show ?thesis by simp
qed

lemma diel_read_restart_setflag:
  assumes "1 \<le> i" and "i \<le> j" and "j \<le> ntypes a"
  shows "setflag (fst (diel_read_restart a fp q)) i j = 0"
proof -
  obtain p1 fp1 where r: "diel_read_restart_settings fp q = (p1, fp1)"
    by (cases "diel_read_restart_settings fp q")
  let ?P = "\<lambda>s :: pair_coul_diel \<times> restart_file. setflag (fst s) i j = 0"
  have start: "?P (diel_allocate a p1, fp1)"
    using assms by (simp add: diel_allocate_def)
  have "?P (diel_read_restart a fp q)"
    unfolding diel_read_restart_def r Let_def prod.case
    by (rule fold_invariant [where P = ?P], rule fold_invariant [where P = ?P])
       (use start in \<open>auto simp: split_beta\<close>)
  then show ?thesis .
qed

text \<open>
  \<open>coeff\<close> sets \<open>eps_s\<close> from its third argument and derives \<open>a_eps\<close> and \<open>b_eps\<close> from
  it; the configuration \<open>diel_eighty\<close> holds the constants \<open>coeff\<close> gives for \<open>eps_s = 80\<close>.
\<close>

lemma diel_coeff_loop_constants:
  "eps_s (fst (diel_coeff_loop ilo ihi jlo jhi sg rm c p)) = eps_s p"
proof -
  let ?P = "\<lambda>s :: pair_coul_diel \<times> nat. eps_s (fst s) = eps_s p"
  have "?P (diel_coeff_loop ilo ihi jlo jhi sg rm c p)"
    unfolding diel_coeff_loop_def
    by (rule fold_invariant [where P = ?P], rule fold_invariant [where P = ?P])
       (auto simp: split_beta)
  then show ?thesis .
qed

lemma diel_coeff_constants:
  assumes "diel_coeff ib jb (e # rest) a p = Inr p'"
  shows "eps_s p' = e \<and> a_eps p' = Fin (1 / 2) * (Fin (26 / 5) + e)
       \<and> b_eps p' = Fin (1 / 2) * (e - Fin (26 / 5))"
proof -
  have "eps_s (fst (diel_coeff_loop ilo ihi jlo jhi sg rm c (q\<lparr>eps_s := e\<rparr>))) = e"
    for ilo ihi jlo jhi sg rm c and q :: pair_coul_diel
    by (simp add: diel_coeff_loop_constants)
  then show ?thesis
    using assms unfolding diel_coeff_def Let_def
    by (auto simp: split_beta split: if_splits)
qed

lemma diel_eighty_constants:
  "eps_s diel_eighty = Fin 80
   \<and> a_eps diel_eighty = Fin (1 / 2) * (Fin (26 / 5) + Fin 80)
   \<and> b_eps diel_eighty = Fin (1 / 2) * (Fin 80 - Fin (26 / 5))"
  by (simp add: diel_eighty_def dbl_arith)

text \<open>
  C3, as the code has it. What \<open>write_restart_settings\<close> writes,
  \<open>read_restart_settings\<close> reads back exactly, into any instance and whatever follows in
  the file: the global cutoff, \<open>offset_flag\<close> and \<open>mix_flag\<close> of both styles and the
  screening constant \<open>kappa\<close> of the Debye style. The dielectric constants \<open>eps_s\<close>, \<open>a_eps\<close>
  and \<open>b_eps\<close> are not part of the file: \<open>read_restart\<close> leaves them as the reading
  instance has them.
\<close>

theorem C3_settings_block_roundtrip:
  "debye_read_restart_settings (debye_write_restart_settings p [] @ rest) q
     = (q\<lparr>cut_global := cut_global p, kappa := kappa p, offset_flag := offset_flag p,
          mix_flag := mix_flag p\<rparr>, rest)
   \<and> diel_read_restart_settings (diel_write_restart_settings pd [] @ rest) qd
     = (qd\<lparr>cut_global := cut_global pd, offset_flag := offset_flag pd, mix_flag := mix_flag pd\<rparr>, rest)
   \<and> eps_s (fst (diel_read_restart a fp qd)) = eps_s qd
   \<and> a_eps (fst (diel_read_restart a fp qd)) = a_eps qd
   \<and> b_eps (fst (diel_read_restart a fp qd)) = b_eps qd"
  by (simp add: debye_settings_roundtrip diel_settings_roundtrip diel_read_restart_eps)

text \<open>
  C3 as stated fails: after writing the configured dielectric style and reading the file
  into a new instance, \<open>eps_s\<close> is not the value that was configured.
\<close>

theorem C3_counterexample:
  "eps_s (fst (diel_read_restart atom_ghost (diel_write_restart atom_ghost diel_eighty []) diel_blank))
     \<noteq> eps_s diel_eighty"
  by (simp add: diel_read_restart_eps) (simp add: diel_blank_def diel_eighty_def)

theorem C3_witness:
  "cut_global (fst (debye_read_restart_settings (debye_write_restart_settings debye_half []) debye_unset)) = Fin 5
   \<and> kappa (fst (debye_read_restart_settings (debye_write_restart_settings debye_half []) debye_unset)) = Fin (1 / 2)
   \<and> offset_flag (fst (diel_read_restart_settings (diel_write_restart_settings diel_eighty []) diel_blank)) = 1
   \<and> eps_s (fst (diel_read_restart atom_ghost (diel_write_restart atom_ghost diel_eighty []) diel_blank)) = Fin 0"
  using C3_settings_block_roundtrip [of debye_half "[]" debye_unset diel_eighty diel_blank atom_ghost
      "diel_write_restart atom_ghost diel_eighty []"]
  by (simp add: debye_half_def diel_eighty_def diel_blank_def)

subsection \<open>A pair at distance zero\<close>

lemma dmul_not_finite_right: "\<not> is_finite y \<Longrightarrow> \<not> is_finite (x * y)"
  by (cases x; cases y) (auto simp: dbl_arith)

lemma dmul_not_finite_left: "\<not> is_finite x \<Longrightarrow> \<not> is_finite (x * y)"
  by (cases x; cases y) (auto simp: dbl_arith)

lemma dadd_not_finite_right: "\<not> is_finite y \<Longrightarrow> \<not> is_finite (x + y)"
  by (cases x; cases y) (auto simp: dbl_arith)

lemma ddiv_zero_not_finite: "\<not> is_finite (x / Fin 0)"
  by (cases x) (auto simp: dbl_arith)

lemma dmul_zero_not_finite: "\<not> is_finite y \<Longrightarrow> Fin 0 * y = NaN"
  by (cases y) (auto simp: dbl_arith)

lemma dadd_NaN [simp]: "x + NaN = NaN" "NaN + x = NaN" "x - NaN = NaN" "NaN - x = NaN"
  by (cases x; simp add: dbl_arith)+

lemma dadd_zero [simp]: "x + Fin 0 = x"
  by (cases x) (simp_all add: dbl_arith)

lemma dsqrt_zero [simp]: "dsqrt (Fin 0) = Fin 0"
  by simp

lemma sum_squares_zero:
  assumes "x * x + y * y + z * z = Fin 0"
  shows "x = Fin 0 \<and> y = Fin 0 \<and> z = Fin 0"
proof -
  obtain a b c where "x = Fin a" "y = Fin b" "z = Fin c"
    using assms by (cases x; cases y; cases z) (auto simp: dbl_arith)
  moreover from this assms have sum: "a * a + b * b + c * c = 0"
    by (simp add: dbl_arith)
  have "0 \<le> a * a" "0 \<le> b * b" "0 \<le> c * c"
    by simp_all
  with sum have "a * a = 0" "b * b = 0" "c * c = 0"
    by linarith+
  then have "a = 0 \<and> b = 0 \<and> c = 0"
    by simp
  ultimately show ?thesis by simp
qed

lemma debye_kernel_zero: "\<not> is_finite (fst (debye_kernel EF qq kap qi qj fc (Fin 0)))"
  by (simp add: debye_kernel_def Let_def dmul_not_finite_right ddiv_zero_not_finite)

lemma diel_kernel_zero: "\<not> is_finite (fst (diel_kernel EF p qq qi qj it jt fc (Fin 0)))"
  by (simp add: diel_kernel_def Let_def ddiv_zero_not_finite)

lemma debye_single_zero: "\<not> is_finite (snd (debye_single p a fr i j it jt (Fin 0) fc fl))"
  by (simp add: debye_single_def Let_def dmul_not_finite_right ddiv_zero_not_finite)

lemma diel_single_zero: "\<not> is_finite (snd (diel_single p a fr i j it jt (Fin 0) fc fl))"
  by (simp add: diel_single_def Let_def ddiv_zero_not_finite)

lemma apply_force_zero_distance:
  assumes "\<not> is_finite fpair" and "c < 3"
  shows "apply_force N nl i j (Fin 0) (Fin 0) (Fin 0) fpair fb i c = NaN"
proof -
  have "c = 0 \<or> c = 1 \<or> c = 2" using assms(2) by auto
  then show ?thesis
    by (auto simp: apply_force_def add3_def sub3_def Let_def dmul_zero_not_finite [OF assms(1)])
qed


text \<open>
  C1, as the code has it. No kernel rejects a pair whose squared separation is exactly
  zero. In the \<open>eval\<close> loop of either style the only test is \<open>rsq < cutsq\<close>, so with a
  positive squared cutoff the pair is processed: the division by the zero \<open>rsq\<close> (or
  \<open>r\<close>) makes the force factor an infinity or NaN, and each of the three components of
  the owner's slot in the force buffer becomes NaN. \<open>single\<close> of either style has no
  test and returns a force factor that is not finite.
\<close>

theorem C1_zero_distance_not_rejected:
  assumes "decode_j fr (nlocal a + nghost a) j0 = (factor_coul, j)"
    and "delx = atom_x a i 0 - atom_x a j 0"
    and "dely = atom_x a i 1 - atom_x a j 1"
    and "delz = atom_x a i 2 - atom_x a j 2"
    and "delx * delx + dely * dely + delz * delz = Fin 0"
  shows "(Fin 0 < cutsq p (atom_type a i) (atom_type a j) \<longrightarrow>
           (\<forall>c<3. thr_f (debye_pair EVFLAG EFLAG NEWTON_PAIR p a fr i j0 t) i c = NaN))
       \<and> (Fin 0 < cutsq pd (atom_type a i) jtype \<longrightarrow>
           (\<forall>c<3. thr_f (diel_pair EVFLAG EFLAG NEWTON_PAIR jtype pd a fr i j0 t) i c = NaN))
       \<and> \<not> is_finite (snd (debye_single p a fr i j itype jtype (Fin 0) factor_coul factor_lj))
       \<and> \<not> is_finite (snd (diel_single pd a fr i j itype jtype (Fin 0) factor_coul factor_lj))"
proof -
  have z: "delx = Fin 0" "dely = Fin 0" "delz = Fin 0"
    using sum_squares_zero [OF assms(5)] by simp_all
  have d: "atom_x a i 0 - atom_x a j 0 = Fin 0" "atom_x a i 1 - atom_x a j 1 = Fin 0"
    "atom_x a i 2 - atom_x a j 2 = Fin 0"
    using assms(2-4) z by simp_all
  have r: "Fin 0 * Fin 0 + Fin 0 * Fin 0 + Fin 0 * Fin 0 = Fin 0"
    by (simp add: dbl_arith)
  have "thr_f (debye_pair EVFLAG EFLAG NEWTON_PAIR p a fr i j0 t) i c = NaN"
    if "Fin 0 < cutsq p (atom_type a i) (atom_type a j)" and "c < 3" for c
    using that
    by (simp add: debye_pair_thr_f Let_def assms(1) d r apply_force_zero_distance debye_kernel_zero
        del: One_nat_def)
  moreover have "thr_f (diel_pair EVFLAG EFLAG NEWTON_PAIR jtype pd a fr i j0 t) i c = NaN"
    if "Fin 0 < cutsq pd (atom_type a i) jtype" and "c < 3" for c
    using that
    by (simp add: diel_pair_thr_f Let_def assms(1) d r apply_force_zero_distance diel_kernel_zero
        del: One_nat_def)
  ultimately show ?thesis
    by (simp add: debye_single_zero diel_single_zero)
qed

text \<open>
  C1 as stated fails: for two particles at the same position the Debye loop body changes
  the owner's force, to NaN.
\<close>

theorem C1_counterexample:
  "thr_f (debye_pair True True True debye_half atom_coincident force_one 0 1 thr_zero) 0 0 = NaN
   \<and> debye_pair True True True debye_half atom_coincident force_one 0 1 thr_zero \<noteq> thr_zero"
proof -
  have "thr_f (debye_pair True True True debye_half atom_coincident force_one 0 1 thr_zero) 0 0 = NaN"
    by (simp add: debye_pair_thr_f Let_def decode_j_def atom_coincident_def atom_two_def
        debye_half_def force_one_def debye_kernel_def apply_force_def add3_def sub3_def
        thr_zero_def dbl_arith)
  moreover have "thr_f thr_zero 0 0 \<noteq> NaN"
    by (simp add: thr_zero_def)
  ultimately show ?thesis by metis
qed

theorem C1_witness:
  "thr_f (debye_pair True True True debye_half atom_coincident force_one 0 1 thr_zero) 0 0 = NaN
   \<and> thr_f (debye_pair True True True debye_half atom_coincident force_one 0 1 thr_zero) 0 1 = NaN
   \<and> thr_f (debye_pair True True True debye_half atom_coincident force_one 0 1 thr_zero) 0 2 = NaN
   \<and> thr_f (diel_pair True True False 2 diel_eighty atom_coincident force_one 0 1 thr_zero) 0 0 = NaN
   \<and> thr_f (diel_pair True True False 2 diel_eighty atom_coincident force_one 0 1 thr_zero) 0 1 = NaN
   \<and> thr_f (diel_pair True True False 2 diel_eighty atom_coincident force_one 0 1 thr_zero) 0 2 = NaN
   \<and> \<not> is_finite (snd (debye_single debye_half atom_coincident force_one 0 1 1 1 (Fin 0) (Fin 1) (Fin 1)))
   \<and> \<not> is_finite (snd (diel_single diel_eighty atom_coincident force_one 0 1 1 1 (Fin 0) (Fin 1) (Fin 1)))"
proof -
  have h1: "decode_j force_one (nlocal atom_coincident + nghost atom_coincident) 1 = (Fin 1, 1)"
    by (simp add: decode_j_def atom_coincident_def atom_two_def)
  have h2: "Fin 0 = atom_x atom_coincident 0 0 - atom_x atom_coincident 1 0"
    and h3: "Fin 0 = atom_x atom_coincident 0 1 - atom_x atom_coincident 1 1"
    and h4: "Fin 0 = atom_x atom_coincident 0 2 - atom_x atom_coincident 1 2"
    and h5: "Fin 0 * Fin 0 + Fin 0 * Fin 0 + Fin 0 * Fin 0 = Fin 0"
    and h6: "Fin 0 < cutsq debye_half (atom_type atom_coincident 0) (atom_type atom_coincident 1)"
    and h7: "Fin 0 < cutsq diel_eighty (atom_type atom_coincident 0) 2"
    by (simp_all add: atom_coincident_def atom_two_def debye_half_def diel_eighty_def dbl_arith)
  show ?thesis
    using C1_zero_distance_not_rejected [OF h1 h2 h3 h4 h5, of debye_half True True True thr_zero
        diel_eighty 2 1 "Fin 1"] h6 h7
      C1_zero_distance_not_rejected [OF h1 h2 h3 h4 h5, of debye_half True True False thr_zero
        diel_eighty 2 1 "Fin 1"]
      C1_zero_distance_not_rejected [OF h1 h2 h3 h4 h5, of debye_half True True False thr_zero
        diel_eighty 1 1 "Fin 1"]
    by simp
qed

subsection \<open>The Debye scenario of the spec\<close>

text \<open>
  C6. Charges \<open>+1\<close> and \<open>-1\<close> at separation \<open>1\<close>, \<open>kappa = 0.5\<close>, \<open>qqrd2e = 1\<close>, cutoff \<open>5\<close>,
  exclusion scale \<open>1\<close>, values exact: \<open>single\<close> returns the energy \<open>-e^(-0.5)\<close> and the force
  factor \<open>-1.5 e^(-0.5)\<close>; the \<open>eval\<close> loop body adds the energy \<open>-e^(-0.5)\<close> and gives the
  owner the force \<open>(1.5 e^(-0.5), 0, 0)\<close>. These are the values of the closed forms,
  and the magnitudes are \<open>1.5 e^(-0.5)\<close> and \<open>e^(-0.5)\<close>.
\<close>

theorem C6_debye_scenario:
  "debye_single debye_half atom_two force_one 0 1 1 1 (Fin 1) (Fin 1) (Fin 1)
     = (Fin (- exp (- (1 / 2))), Fin (- (3 / 2 * exp (- (1 / 2)))))
   \<and> eng_coul_thr (debye_pair True True nw debye_half atom_two force_one 0 1 thr_zero)
     = Fin (- exp (- (1 / 2)))
   \<and> thr_f (debye_pair evf ef nw debye_half atom_two force_one 0 1 thr_zero) 0
     = (\<lambda>c. if c = 0 then Fin (3 / 2 * exp (- (1 / 2))) else Fin 0)
   \<and> debye_closed_force 1 1 (- 1) (1 / 2) 1 = - (3 / 2 * exp (- (1 / 2)))
   \<and> debye_closed_energy 1 1 (- 1) (1 / 2) 1 = - exp (- (1 / 2))
   \<and> \<bar>- (3 / 2 * exp (- (1 / 2)))\<bar> = (3 / 2 * exp (- (1 / 2)) :: real)
   \<and> \<bar>- exp (- (1 / 2))\<bar> = (exp (- (1 / 2)) :: real)"
  apply (intro conjI)
  subgoal by (simp add: debye_single_def debye_half_def atom_two_def force_one_def dbl_arith Let_def)
  subgoal by (simp add: debye_pair_def decode_j_def debye_kernel_def debye_half_def atom_two_def force_one_def dbl_arith Let_def ev_tally_thr_def thr_zero_def apply_force_def add3_def sub3_def)
  subgoal by (auto simp add: fun_eq_iff debye_pair_def decode_j_def debye_kernel_def debye_half_def atom_two_def force_one_def dbl_arith Let_def ev_tally_thr_def thr_zero_def apply_force_def add3_def sub3_def)
  subgoal by (simp add: debye_closed_force_def)
  subgoal by (simp add: debye_closed_energy_def)
  subgoal by simp
  subgoal by simp
  done

theorem C6_witness:
  "eng_coul_thr (debye_pair True True True debye_half atom_two force_one 0 1 thr_zero)
     = Fin (- exp (- (1 / 2)))
   \<and> thr_f (debye_pair True True True debye_half atom_two force_one 0 1 thr_zero) 0 0
     = Fin (3 / 2 * exp (- (1 / 2)))"
  using C6_debye_scenario [of True True True] by simp

subsection \<open>The energy of a pair and the offset\<close>

lemma debye_kernel_energy:
  assumes "0 < r2"
  shows "snd (debye_kernel True (Fin qq) (Fin kap) (Fin qi) (Fin qj) (Fin fc) (Fin r2))
       = Fin (fc * debye_closed_energy qq qi qj kap (sqrt r2))"
  using assms
  by (simp add: debye_kernel_def Let_def dbl_arith debye_closed_energy_def field_simps)

lemma diel_kernel_energy:
  assumes "0 < r2" and "rme p it jt = Fin rm" and "sigmae p it jt = Fin sg" and "sg \<noteq> 0"
    and "eps_s p = Fin es" and "a_eps p = Fin ae" and "b_eps p = Fin be"
    and "ae + be * tanh ((sqrt r2 - rm) / sg) \<noteq> 0" and "offset p it jt = Fin off"
  shows "snd (diel_kernel True p (Fin qq) (Fin qi) (Fin qj) it jt (Fin fc) (Fin r2))
       = Fin ((diel_closed_energy qq qi qj es ae be rm sg (sqrt r2) - off) * fc)"
  using assms
  by (simp add: diel_kernel_def Let_def dbl_arith diel_closed_energy_def)

lemma eng_coul_thr_debye_pair:
  assumes "decode_j fr (nlocal a + nghost a) j0 = (fc, j)"
    and "(atom_x a i 0 - atom_x a j 0) * (atom_x a i 0 - atom_x a j 0)
         + (atom_x a i 1 - atom_x a j 1) * (atom_x a i 1 - atom_x a j 1)
         + (atom_x a i 2 - atom_x a j 2) * (atom_x a i 2 - atom_x a j 2) = rsq"
    and "rsq < cutsq p (atom_type a i) (atom_type a j)"
  shows "eng_coul_thr (debye_pair True EF N p a fr i j0 t)
       = eng_coul_thr t + snd (debye_kernel EF (qqrd2e fr) (kappa p) (atom_q a i) (atom_q a j) fc rsq)"
  using assms
  by (simp add: debye_pair_def Let_def split_beta ev_tally_thr_def)

lemma eng_coul_thr_diel_pair:
  assumes "decode_j fr (nlocal a + nghost a) j0 = (fc, j)"
    and "(atom_x a i 0 - atom_x a j 0) * (atom_x a i 0 - atom_x a j 0)
         + (atom_x a i 1 - atom_x a j 1) * (atom_x a i 1 - atom_x a j 1)
         + (atom_x a i 2 - atom_x a j 2) * (atom_x a i 2 - atom_x a j 2) = rsq"
    and "rsq < cutsq p (atom_type a i) jt"
  shows "eng_coul_thr (diel_pair True EF N jt p a fr i j0 t)
       = eng_coul_thr t + snd (diel_kernel EF p (qqrd2e fr) (atom_q a i) (atom_q a j) (atom_type a i) jt fc rsq)"
  using assms
  by (simp add: diel_pair_def Let_def split_beta ev_tally_thr_def)

lemma diel_init_one_offset_off:
  "offset_flag p = 0 \<Longrightarrow> diel_init_one a fr k l p = Inr (p1, c)
     \<Longrightarrow> offset p1 k l = Fin 0 \<and> offset p1 l k = Fin 0"
  by (auto simp: diel_init_one_def Let_def split: if_splits)


text \<open>
  C2, as the code has it. With energy accounting on, for a pair that passes the cutoff
  test at a positive distance, with finite charges and constants: the Debye loop adds the
  closed form \<open>qqrd2e q_i q_j e^(-kappa r) / r\<close> times the exclusion scale factor, and
  subtracts no offset, whatever \<open>offset_flag\<close> is; the dielectric loop adds
  \<open>(E - offset[itype][jtype]) * factor_coul\<close>, where \<open>itype\<close> is the owner's type, \<open>jtype\<close>
  is the index with which the loop reads its tables, whatever its value, and \<open>E\<close> is the
  closed form for \<open>rme[itype][jtype]\<close> and \<open>sigmae[itype][jtype]\<close>; and \<open>init_one\<close> of the
  dielectric style stores the offset zero, at \<open>(i, j)\<close> and at \<open>(j, i)\<close>, when offset mode
  is off.
\<close>

theorem C2_energy_and_offset:
  assumes "decode_j fr (nlocal a + nghost a) j0 = (Fin fc, j)"
    and "(atom_x a i 0 - atom_x a j 0) * (atom_x a i 0 - atom_x a j 0)
         + (atom_x a i 1 - atom_x a j 1) * (atom_x a i 1 - atom_x a j 1)
         + (atom_x a i 2 - atom_x a j 2) * (atom_x a i 2 - atom_x a j 2) = Fin r2"
    and "0 < r2"
    and "qqrd2e fr = Fin qq" and "atom_q a i = Fin qi" and "atom_q a j = Fin qj"
  shows "(kappa p = Fin kap \<and> Fin r2 < cutsq p (atom_type a i) (atom_type a j) \<longrightarrow>
           eng_coul_thr (debye_pair True True NEWTON_PAIR p a fr i j0 t)
             = eng_coul_thr t + Fin (fc * debye_closed_energy qq qi qj kap (sqrt r2)))
       \<and> (Fin r2 < cutsq pd (atom_type a i) jtype
            \<and> rme pd (atom_type a i) jtype = Fin rm
            \<and> sigmae pd (atom_type a i) jtype = Fin sg \<and> sg \<noteq> 0
            \<and> eps_s pd = Fin es \<and> a_eps pd = Fin ae \<and> b_eps pd = Fin be
            \<and> ae + be * tanh ((sqrt r2 - rm) / sg) \<noteq> 0
            \<and> offset pd (atom_type a i) jtype = Fin off \<longrightarrow>
           eng_coul_thr (diel_pair True True NEWTON_PAIR jtype pd a fr i j0 t)
             = eng_coul_thr t
               + Fin ((diel_closed_energy qq qi qj es ae be rm sg (sqrt r2) - off) * fc))
       \<and> (offset_flag pd = 0 \<longrightarrow>
            (\<forall>p1 c. diel_init_one a fr k l pd = Inr (p1, c)
                \<longrightarrow> offset p1 k l = Fin 0 \<and> offset p1 l k = Fin 0))"
proof -
  have deb: "eng_coul_thr (debye_pair True True NEWTON_PAIR p a fr i j0 t)
      = eng_coul_thr t + Fin (fc * debye_closed_energy qq qi qj kap (sqrt r2))"
    if h: "kappa p = Fin kap \<and> Fin r2 < cutsq p (atom_type a i) (atom_type a j)"
    using h eng_coul_thr_debye_pair [OF assms(1,2), of p True NEWTON_PAIR t]
    by (simp add: assms(4-6) debye_kernel_energy [OF assms(3)])
  have die: "eng_coul_thr (diel_pair True True NEWTON_PAIR jtype pd a fr i j0 t)
      = eng_coul_thr t + Fin ((diel_closed_energy qq qi qj es ae be rm sg (sqrt r2) - off) * fc)"
    if h: "Fin r2 < cutsq pd (atom_type a i) jtype
            \<and> rme pd (atom_type a i) jtype = Fin rm
            \<and> sigmae pd (atom_type a i) jtype = Fin sg \<and> sg \<noteq> 0
            \<and> eps_s pd = Fin es \<and> a_eps pd = Fin ae \<and> b_eps pd = Fin be
            \<and> ae + be * tanh ((sqrt r2 - rm) / sg) \<noteq> 0
            \<and> offset pd (atom_type a i) jtype = Fin off"
  proof -
    have "snd (diel_kernel True pd (Fin qq) (Fin qi) (Fin qj) (atom_type a i) jtype
                 (Fin fc) (Fin r2))
         = Fin ((diel_closed_energy qq qi qj es ae be rm sg (sqrt r2) - off) * fc)"
      using h by (intro diel_kernel_energy [OF assms(3)]) simp_all
    then show ?thesis
      using h eng_coul_thr_diel_pair [OF assms(1,2), of pd jtype True NEWTON_PAIR t]
      by (simp add: assms(4-6))
  qed
  have off: "offset p1 k l = Fin 0 \<and> offset p1 l k = Fin 0"
    if "offset_flag pd = 0" and "diel_init_one a fr k l pd = Inr (p1, c)" for p1 c
    using that by (rule diel_init_one_offset_off)
  show ?thesis
    using deb die off by blast
qed

text \<open>
  C2 as stated fails for both formulas. Debye, the scenario of the spec with offset mode
  on: the energy added is the closed form at \<open>r = 1\<close>, not that value minus the closed
  form at the cutoff radius \<open>5\<close>. Dielectric, offset mode on, cutoff \<open>2\<close>: \<open>init_one\<close> for
  the types \<open>(1, 2)\<close> stores the offset \<open>187/426\<close>, while the potential of the pair of
  these types, charges \<open>+1\<close> and \<open>-1\<close>, at the cutoff radius is \<open>-187/426\<close>, so the
  energy of that pair does not vanish at the cutoff.
\<close>

theorem C2_counterexample:
  "offset_flag debye_half = 1
   \<and> eng_coul_thr (debye_pair True True True debye_half atom_two force_one 0 1 thr_zero)
     \<noteq> Fin (debye_closed_energy 1 1 (- 1) (1 / 2) 1 - debye_closed_energy 1 1 (- 1) (1 / 2) 5)
   \<and> offset_flag diel_cut_two = 1
   \<and> (case diel_init_one atom_ghost force_one 1 2 diel_cut_two of
        Inl e \<Rightarrow> False
      | Inr (p1, c) \<Rightarrow> c = Fin 2 \<and> offset p1 1 2 = Fin (187 / 426))
   \<and> diel_closed_energy 1 1 (- 1) 80 (213 / 5) (187 / 5) 2 (1 / 2) 2 = - (187 / 426)"
proof -
  have "eng_coul_thr (debye_pair True True True debye_half atom_two force_one 0 1 thr_zero)
     \<noteq> Fin (debye_closed_energy 1 1 (- 1) (1 / 2) 1 - debye_closed_energy 1 1 (- 1) (1 / 2) 5)"
    by (simp add: debye_pair_def decode_j_def debye_kernel_def debye_half_def atom_two_def
        force_one_def dbl_arith Let_def ev_tally_thr_def thr_zero_def debye_closed_energy_def)
  moreover have "case diel_init_one atom_ghost force_one 1 2 diel_cut_two of
        Inl e \<Rightarrow> False
      | Inr (p1, c) \<Rightarrow> c = Fin 2 \<and> offset p1 1 2 = Fin (187 / 426)"
    by (simp add: diel_init_one_def diel_cut_two_def diel_eighty_def atom_ghost_def force_one_def
        Let_def dbl_arith)
  moreover have "diel_closed_energy 1 1 (- 1) 80 (213 / 5) (187 / 5) 2 (1 / 2) 2 = - (187 / 426)"
    by (simp add: diel_closed_energy_def)
  ultimately show ?thesis
    by (simp add: debye_half_def diel_cut_two_def diel_eighty_def)
qed

theorem C2_witness:
  "eng_coul_thr (debye_pair True True True debye_half atom_two force_one 0 1 thr_zero)
     = Fin (- exp (- (1 / 2)))
   \<and> eng_coul_thr (diel_pair True True True 2 diel_shifted atom_ghost force_one 0 1 thr_zero)
     = Fin (diel_closed_energy 1 1 (- 1) 80 (213 / 5) (187 / 5) 2 (1 / 2) 2 - 1 / 4)
   \<and> eng_coul_thr (diel_pair True True True 1 diel_eighty atom_ghost force_one 0 1 thr_zero)
     = Fin (diel_closed_energy 1 1 (- 1) 80 (213 / 5) (187 / 5) 2 1 2 - 1)"
proof -
  have h1: "decode_j force_one (nlocal atom_two + nghost atom_two) 1 = (Fin 1, 1)"
    by (simp add: decode_j_def atom_two_def)
  have h2: "(atom_x atom_two 0 0 - atom_x atom_two 1 0) * (atom_x atom_two 0 0 - atom_x atom_two 1 0)
         + (atom_x atom_two 0 1 - atom_x atom_two 1 1) * (atom_x atom_two 0 1 - atom_x atom_two 1 1)
         + (atom_x atom_two 0 2 - atom_x atom_two 1 2) * (atom_x atom_two 0 2 - atom_x atom_two 1 2)
         = Fin 1"
    by (simp add: atom_two_def dbl_arith)
  have h3: "(0::real) < 1" by simp
  have h4: "qqrd2e force_one = Fin 1" "atom_q atom_two 0 = Fin 1" "atom_q atom_two 1 = Fin (- 1)"
    by (simp_all add: force_one_def atom_two_def)
  have h5: "kappa debye_half = Fin (1 / 2)
      \<and> Fin 1 < cutsq debye_half (atom_type atom_two 0) (atom_type atom_two 1)"
    by (simp add: debye_half_def dbl_arith)
  have a: "eng_coul_thr (debye_pair True True True debye_half atom_two force_one 0 1 thr_zero)
     = Fin (- exp (- (1 / 2)))"
    using C2_energy_and_offset [OF h1 h2 h3 h4, THEN conjunct1, rule_format, OF h5, of True thr_zero]
    by (simp add: thr_zero_def debye_closed_energy_def dbl_arith)
  have g1: "decode_j force_one (nlocal atom_ghost + nghost atom_ghost) 1 = (Fin 1, 1)"
    by (simp add: decode_j_def atom_ghost_def)
  have g2: "(atom_x atom_ghost 0 0 - atom_x atom_ghost 1 0) * (atom_x atom_ghost 0 0 - atom_x atom_ghost 1 0)
         + (atom_x atom_ghost 0 1 - atom_x atom_ghost 1 1) * (atom_x atom_ghost 0 1 - atom_x atom_ghost 1 1)
         + (atom_x atom_ghost 0 2 - atom_x atom_ghost 1 2) * (atom_x atom_ghost 0 2 - atom_x atom_ghost 1 2)
         = Fin 4"
    by (simp add: atom_ghost_def dbl_arith)
  have g3: "(0::real) < 4" by simp
  have g4: "qqrd2e force_one = Fin 1" "atom_q atom_ghost 0 = Fin 1" "atom_q atom_ghost 1 = Fin (- 1)"
    by (simp_all add: force_one_def atom_ghost_def)
  have s4: "sqrt 4 = (2::real)"
    using real_sqrt_abs [of 2] by simp
  have g5: "Fin 4 < cutsq diel_shifted (atom_type atom_ghost 0) 2
            \<and> rme diel_shifted (atom_type atom_ghost 0) 2 = Fin 2
            \<and> sigmae diel_shifted (atom_type atom_ghost 0) 2 = Fin (1 / 2)
            \<and> (1 / 2 :: real) \<noteq> 0
            \<and> eps_s diel_shifted = Fin 80 \<and> a_eps diel_shifted = Fin (213 / 5)
            \<and> b_eps diel_shifted = Fin (187 / 5)
            \<and> 213 / 5 + 187 / 5 * tanh ((sqrt 4 - 2) / (1 / 2)) \<noteq> (0::real)
            \<and> offset diel_shifted (atom_type atom_ghost 0) 2 = Fin (1 / 4)"
    by (simp add: diel_shifted_def diel_eighty_def atom_ghost_def dbl_arith s4)
  have b: "eng_coul_thr (diel_pair True True True 2 diel_shifted atom_ghost force_one 0 1 thr_zero)
     = Fin (diel_closed_energy 1 1 (- 1) 80 (213 / 5) (187 / 5) 2 (1 / 2) 2 - 1 / 4)"
    using C2_energy_and_offset [OF g1 g2 g3 g4, THEN conjunct2, THEN conjunct1, rule_format, OF g5,
        of True thr_zero]
    by (simp add: thr_zero_def dbl_arith s4)
  have g6: "Fin 4 < cutsq diel_eighty (atom_type atom_ghost 0) 1
            \<and> rme diel_eighty (atom_type atom_ghost 0) 1 = Fin 2
            \<and> sigmae diel_eighty (atom_type atom_ghost 0) 1 = Fin 1
            \<and> (1 :: real) \<noteq> 0
            \<and> eps_s diel_eighty = Fin 80 \<and> a_eps diel_eighty = Fin (213 / 5)
            \<and> b_eps diel_eighty = Fin (187 / 5)
            \<and> 213 / 5 + 187 / 5 * tanh ((sqrt 4 - 2) / 1) \<noteq> (0::real)
            \<and> offset diel_eighty (atom_type atom_ghost 0) 1 = Fin 1"
    by (simp add: diel_eighty_def atom_ghost_def dbl_arith s4)
  have c: "eng_coul_thr (diel_pair True True True 1 diel_eighty atom_ghost force_one 0 1 thr_zero)
     = Fin (diel_closed_energy 1 1 (- 1) 80 (213 / 5) (187 / 5) 2 1 2 - 1)"
    using C2_energy_and_offset [OF g1 g2 g3 g4, THEN conjunct2, THEN conjunct1, rule_format, OF g6,
        of True thr_zero]
    by (simp add: thr_zero_def dbl_arith s4)
  show ?thesis
    using a b c by simp
qed

subsection \<open>The single-pair query and the loop\<close>

text \<open>
  On the same charges, types, squared separation and scale factor, \<open>single\<close> returns
  the energy and the force factor that the loop body computes with energy accounting on:
  for the Debye style always, for the dielectric style when the loop's \<open>jtype\<close> is the
  type handed to \<open>single\<close>.
\<close>

lemma dmul_commute: "x * y = y * (x::dbl)"
  by (cases x; cases y) (auto simp: dbl_arith mult.commute)

lemma dmul_assoc: "(x * y) * z = x * (y * (z::dbl))"
  by (cases x; cases y; cases z)
     (auto simp: dbl_arith mult_less_0_iff zero_less_mult_iff not_less mult_le_0_iff
        zero_le_mult_iff)


lemma debye_single_matches_kernel:
  "debye_single p a fr i j itype jtype rsq factor_coul factor_lj
     = (snd (debye_kernel True (qqrd2e fr) (kappa p) (atom_q a i) (atom_q a j) factor_coul rsq),
        fst (debye_kernel True (qqrd2e fr) (kappa p) (atom_q a i) (atom_q a j) factor_coul rsq))"
  by (simp add: debye_single_def debye_kernel_def Let_def dmul_assoc)

lemma diel_single_matches_kernel:
  "diel_single p a fr i j itype jtype rsq factor_coul factor_lj
     = (snd (diel_kernel True p (qqrd2e fr) (atom_q a i) (atom_q a j) itype jtype factor_coul rsq),
        fst (diel_kernel True p (qqrd2e fr) (atom_q a i) (atom_q a j) itype jtype factor_coul rsq))"
  by (simp add: diel_single_def diel_kernel_def Let_def dmul_commute [of factor_coul])

text \<open>
  C5 at a failing input. The dielectric tables differ between the type pairs \<open>(1,1)\<close> and
  \<open>(1,2)\<close>; the owner has type 1, the partner type 2, at distance \<open>2\<close>; the unassigned
  \<open>jtype\<close> of \<open>eval\<close> holds 1. The loop adds the energy \<open>-187/426 - 1\<close>, computed with
  the offset of the pair \<open>(1,1)\<close>, where \<open>single\<close> for the types \<open>(1,2)\<close> returns
  \<open>-187/426\<close>; and the force the loop gives the owner is not the separation times the
  force factor of \<open>single\<close>.
\<close>

theorem C5_dielectric_eval_reads_unassigned_jtype:
  "eng_coul_thr (diel_pair True True True 1 diel_eighty atom_ghost force_one 0 1 thr_zero)
     = Fin (- (187 / 426) - 1)
   \<and> fst (diel_single diel_eighty atom_ghost force_one 0 1 1 2 (Fin 4) (Fin 1) (Fin 1))
     = Fin (- (187 / 426))
   \<and> thr_f (diel_pair True True True 1 diel_eighty atom_ghost force_one 0 1 thr_zero) 0 0
     \<noteq> Fin (- 2) * snd (diel_single diel_eighty atom_ghost force_one 0 1 1 2 (Fin 4) (Fin 1) (Fin 1))"
proof -
  have s4: "sqrt 4 = (2::real)"
    using real_sqrt_abs [of 2] by simp
  show ?thesis
    by (simp add: diel_pair_def diel_single_def diel_kernel_def decode_j_def diel_eighty_def
        atom_ghost_def force_one_def thr_zero_def ev_tally_thr_def apply_force_def add3_def
        sub3_def Let_def dbl_arith s4)
qed

end
